theory Spec2Isabelle
  imports Main
begin

section \<open>Data model of the notification service\<close>

text \<open>
  The service of \<^verbatim>\<open>NotificationService\<close> (the class behind \<^verbatim>\<open>@/services/NotificationService\<close>)
  talks to three collaborators: the notification scheduler of the platform, the key-value
  store \<^verbatim>\<open>AsyncStorage\<close> and the console. The model threads a \<open>world\<close> through every
  operation: the two stored collections, the sequence of platform calls issued so far, the
  console output and the two private fields of the singleton. What the platform answers
  (and whether a call is rejected) is fixed by an environment \<open>env\<close>.
\<close>

record reminder =
  id_rem :: string
  medicationId :: string
  medicationName :: string
  dosage :: string
  scheduledTime :: string
  days :: "int list"
  enabled :: bool
  notificationId :: "string option"

text \<open>The \<^verbatim>\<open>Medication\<close> interface of the medicine tab, whose array is stored under the key
  \<^verbatim>\<open>medications\<close>. The field \<^verbatim>\<open>adherence\<close> is a JavaScript number holding an integer.\<close>

record medication =
  id_med :: string
  name_med :: string
  dosage_med :: string
  frequency :: string
  times_med :: "string list"
  lastTaken :: "string option"
  adherence :: int
  reminderEnabled :: bool
  color :: string

text \<open>The result of \<^verbatim>\<open>Number\<close> on one piece of \<^verbatim>\<open>scheduledTime\<close>. Only runs of decimal
  digits are given their value; \<open>NonDecimal\<close> stands for the result on any other string
  (\<^verbatim>\<open>NaN\<close>, or the value of a numeral with sign, fraction, exponent, radix prefix or blanks).\<close>

datatype jsnum = Num nat | NonDecimal

text \<open>Trigger inputs: \<^verbatim>\<open>WeeklyTriggerInput\<close> (weekday, hour, minute, repeats),
  \<^verbatim>\<open>TimeIntervalTriggerInput\<close> (seconds, repeats) and \<^verbatim>\<open>null\<close> (deliver at once). An
  hour or minute of \<open>None\<close> is \<^verbatim>\<open>undefined\<close>, from destructuring past the end of the array.\<close>

datatype trigger =
    WeeklyTrigger int "jsnum option" "jsnum option" bool
  | TimeIntervalTrigger int bool
  | NullTrigger

record content =
  title :: string
  body :: string
  data :: "(string \<times> string) list"
  sound :: bool
  priority :: "string option"
  categoryIdentifier :: "string option"

record request =
  content :: content
  trigger :: trigger

text \<open>Every call that crosses the boundary to the platform or to the store.\<close>

datatype call =
    SetNotificationHandler
  | WebRequestPermission
  | GetPermissionsAsync
  | RequestPermissionsAsync
  | GetExpoPushTokenAsync
  | AddNotificationResponseReceivedListener
  | ScheduleNotificationAsync request
  | CancelScheduledNotificationAsync string
  | CancelAllScheduledNotificationsAsync
  | GetItem string
  | SetItemMedications "medication list"
  | SetItemReminders "reminder list"

text \<open>The value thrown by a rejected call.\<close>

datatype error = Rejected call

text \<open>A line of console output: the level and the label of the message, and for
  \<^verbatim>\<open>console.error\<close> the error that was passed along. Other arguments are left out.\<close>

datatype log_entry =
    ConsoleLog string
  | ConsoleWarn string
  | ConsoleError string error

text \<open>
  The state of the outside world. \<open>live\<close> is the registrar's own state, as the platform keeps
  it: the triggers registered and not yet cancelled, each under the handle it was given.
  Registering adds a trigger, cancelling a handle removes the triggers under it, cancel-all
  removes every one; a request with trigger \<^verbatim>\<open>null\<close> is shown at once and leaves nothing
  live; a rejected call changes nothing.
\<close>

record world =
  medications :: "medication list option"
  medication_reminders :: "reminder list option"
  live :: "(string \<times> request) list"
  calls :: "call list"
  console :: "log_entry list"
  isInitialized :: bool
  expoPushToken :: "string option"

text \<open>
  The environment: \<open>fails c n\<close> says that the platform rejects call \<open>c\<close> when it is the
  \<open>n\<close>-th call issued (counting from 0); \<open>newId n\<close> is the identifier the scheduler hands
  out for the \<open>n\<close>-th call; \<open>now\<close> is what \<^verbatim>\<open>new Date().toISOString()\<close> yields.
\<close>

record env =
  fails :: "call \<Rightarrow> nat \<Rightarrow> bool"
  newId :: "nat \<Rightarrow> string"
  now :: string
  platformOS :: string
  notificationInWindow :: bool
  webPermission :: string
  existingStatus :: string
  requestedStatus :: string
  isDevice :: bool
  pushToken :: string

section \<open>Asynchronous operations with exceptions\<close>

type_synonym 'a io = "world \<Rightarrow> (error + 'a) \<times> world"

definition return :: "'a \<Rightarrow> 'a io" where
  "return x w = (Inr x, w)"

definition throw :: "error \<Rightarrow> 'a io" where
  "throw e w = (Inl e, w)"

definition bind :: "'a io \<Rightarrow> ('a \<Rightarrow> 'b io) \<Rightarrow> 'b io" where
  "bind m f w = (case m w of (Inl e, w') \<Rightarrow> (Inl e, w') | (Inr x, w') \<Rightarrow> f x w')"

definition try_catch :: "'a io \<Rightarrow> (error \<Rightarrow> 'a io) \<Rightarrow> 'a io" where
  "try_catch m h w = (case m w of (Inl e, w') \<Rightarrow> h e w' | (Inr x, w') \<Rightarrow> (Inr x, w'))"

definition console_out :: "log_entry \<Rightarrow> unit io" where
  "console_out l w = (Inr (), w\<lparr>console := console w @ [l]\<rparr>)"

text \<open>One call to the platform: it is recorded, and it either resolves or rejects.\<close>

definition platform :: "env \<Rightarrow> call \<Rightarrow> nat io" where
  "platform e c w =
     (let n = length (calls w); w' = w\<lparr>calls := calls w @ [c]\<rparr>
      in if fails e c n then (Inl (Rejected c), w') else (Inr n, w'))"

section \<open>The language's own operations\<close>

text \<open>Truthiness of an optional string: \<^verbatim>\<open>undefined\<close> and the empty string are falsy.\<close>

definition truthy :: "string option \<Rightarrow> bool" where
  "truthy v = (case v of None \<Rightarrow> False | Some s \<Rightarrow> s \<noteq> [])"

text \<open>\<^verbatim>\<open>s.split(':')\<close>.\<close>

fun split_colon :: "string \<Rightarrow> string list" where
  "split_colon [] = [[]]"
| "split_colon (c # cs) =
     (if c = CHR '':'' then [] # split_colon cs
      else (case split_colon cs of [] \<Rightarrow> [[c]] | p # ps \<Rightarrow> (c # p) # ps))"

definition digit :: "char \<Rightarrow> nat option" where
  "digit c = map_of
     [(CHR ''0'', 0), (CHR ''1'', 1), (CHR ''2'', 2), (CHR ''3'', 3), (CHR ''4'', 4),
      (CHR ''5'', 5), (CHR ''6'', 6), (CHR ''7'', 7), (CHR ''8'', 8), (CHR ''9'', 9)] c"

fun decimal :: "nat \<Rightarrow> string \<Rightarrow> nat option" where
  "decimal acc [] = Some acc"
| "decimal acc (c # cs) =
     (case digit c of None \<Rightarrow> None | Some d \<Rightarrow> decimal (10 * acc + d) cs)"

text \<open>\<^verbatim>\<open>Number(s)\<close> on a piece of the time string; the empty string is 0.\<close>

definition js_Number :: "string \<Rightarrow> jsnum" where
  "js_Number s = (case decimal 0 s of Some n \<Rightarrow> Num n | None \<Rightarrow> NonDecimal)"

text \<open>\<^verbatim>\<open>const [hours, minutes] = xs\<close>.\<close>

definition first_of :: "'a list \<Rightarrow> 'a option" where
  "first_of xs = (case xs of [] \<Rightarrow> None | x # _ \<Rightarrow> Some x)"

definition second_of :: "'a list \<Rightarrow> 'a option" where
  "second_of xs = (case xs of x # y # _ \<Rightarrow> Some y | _ \<Rightarrow> None)"

section \<open>The platform and the store\<close>

definition scheduleNotificationAsync :: "env \<Rightarrow> request \<Rightarrow> string io" where
  "scheduleNotificationAsync e q =
     bind (platform e (ScheduleNotificationAsync q))
       (\<lambda>n w. (Inr (newId e n),
                if trigger q = NullTrigger then w else w\<lparr>live := live w @ [(newId e n, q)]\<rparr>))"

definition cancelScheduledNotificationAsync :: "env \<Rightarrow> string \<Rightarrow> unit io" where
  "cancelScheduledNotificationAsync e h =
     bind (platform e (CancelScheduledNotificationAsync h))
       (\<lambda>_ w. (Inr (), w\<lparr>live := filter (\<lambda>x. fst x \<noteq> h) (live w)\<rparr>))"

definition cancelAllScheduledNotificationsAsync :: "env \<Rightarrow> unit io" where
  "cancelAllScheduledNotificationsAsync e =
     bind (platform e CancelAllScheduledNotificationsAsync)
       (\<lambda>_ w. (Inr (), w\<lparr>live := []\<rparr>))"

text \<open>\<^verbatim>\<open>AsyncStorage.getItem\<close> and \<^verbatim>\<open>setItem\<close> on the two keys, with \<^verbatim>\<open>JSON.parse\<close> and
  \<^verbatim>\<open>JSON.stringify\<close> folded in: the store holds well-formed arrays, \<open>None\<close> is a missing key.\<close>

definition getItem_medications :: "env \<Rightarrow> medication list option io" where
  "getItem_medications e =
     bind (platform e (GetItem ''medications'')) (\<lambda>_ w. (Inr (medications w), w))"

definition setItem_medications :: "env \<Rightarrow> medication list \<Rightarrow> unit io" where
  "setItem_medications e v =
     bind (platform e (SetItemMedications v)) (\<lambda>_ w. (Inr (), w\<lparr>medications := Some v\<rparr>))"

definition getItem_reminders :: "env \<Rightarrow> reminder list option io" where
  "getItem_reminders e =
     bind (platform e (GetItem ''medication_reminders''))
       (\<lambda>_ w. (Inr (medication_reminders w), w))"

definition setItem_reminders :: "env \<Rightarrow> reminder list \<Rightarrow> unit io" where
  "setItem_reminders e v =
     bind (platform e (SetItemReminders v))
       (\<lambda>_ w. (Inr (), w\<lparr>medication_reminders := Some v\<rparr>))"

section \<open>The service\<close>

text \<open>The symbols that open the four titles, as the bytes of the source file.\<close>

definition symbol_reminder :: string where
  "symbol_reminder = [CHR 0xEF, CHR 0xA3, CHR 0xBF, CHR 0xC3, CHR 0xBC, CHR 0xC3, CHR 0xAD,
     CHR 0xC3, CHR 0xA4]"

definition symbol_recorded :: string where
  "symbol_recorded = [CHR 0xE2, CHR 0x80, CHR 0x9A, CHR 0xC3, CHR 0xBA, CHR 0xC3, CHR 0x96]"

definition symbol_snoozed :: string where
  "symbol_snoozed = [CHR 0xE2, CHR 0x80, CHR 0x9A, CHR 0xC3, CHR 0xA8, CHR 0xE2, CHR 0x88,
     CHR 0x9E]"

definition symbol_test :: string where
  "symbol_test = [CHR 0xEF, CHR 0xA3, CHR 0xBF, CHR 0xC3, CHR 0xBC, CHR 0xC3, CHR 0x9F,
     CHR 0xE2, CHR 0x84, CHR 0xA2]"

definition requestPermissions :: "env \<Rightarrow> bool io" where
  "requestPermissions e =
     (if platformOS e = ''web'' then
        (if notificationInWindow e then
           bind (platform e WebRequestPermission) (\<lambda>_. return (webPermission e = ''granted''))
         else return False)
      else
        bind (platform e GetPermissionsAsync) (\<lambda>_.
        bind (if existingStatus e \<noteq> ''granted''
              then bind (platform e RequestPermissionsAsync) (\<lambda>_. return (requestedStatus e))
              else return (existingStatus e)) (\<lambda>finalStatus.
        if finalStatus \<noteq> ''granted'' then
          bind (console_out (ConsoleWarn ''Push notification permissions not granted''))
            (\<lambda>_. return False)
        else return True)))"

definition registerForPushNotificationsAsync :: "env \<Rightarrow> string option io" where
  "registerForPushNotificationsAsync e =
     try_catch
       (if \<not> isDevice e then
          bind (console_out (ConsoleWarn ''Must use physical device for Push Notifications''))
            (\<lambda>_. return None)
        else
          bind (platform e GetExpoPushTokenAsync) (\<lambda>_.
          bind (console_out (ConsoleLog ''Expo push token:'')) (\<lambda>_.
          return (Some (pushToken e)))))
       (\<lambda>err. bind (console_out (ConsoleError ''Failed to get push token:'' err))
          (\<lambda>_. return None))"

definition showLocalNotification ::
  "env \<Rightarrow> string \<Rightarrow> string \<Rightarrow> (string \<times> string) list \<Rightarrow> string io" where
  "showLocalNotification e t b d =
     try_catch
       (scheduleNotificationAsync e
          \<lparr>content = \<lparr>title = t, body = b, data = d, sound = True, priority = None,
             categoryIdentifier = None\<rparr>,
           trigger = NullTrigger\<rparr>)
       (\<lambda>err. bind (console_out (ConsoleError ''Failed to show local notification:'' err))
          (\<lambda>_. throw err))"

definition cancelReminder :: "env \<Rightarrow> string \<Rightarrow> unit io" where
  "cancelReminder e h =
     try_catch (cancelScheduledNotificationAsync e h)
       (\<lambda>err. console_out (ConsoleError ''Failed to cancel reminder:'' err))"

definition cancelAllReminders :: "env \<Rightarrow> unit io" where
  "cancelAllReminders e =
     try_catch (cancelAllScheduledNotificationsAsync e)
       (\<lambda>err. console_out (ConsoleError ''Failed to cancel all reminders:'' err))"

definition getReminders :: "env \<Rightarrow> reminder list io" where
  "getReminders e =
     try_catch
       (bind (getItem_reminders e) (\<lambda>remindersData.
          return (case remindersData of None \<Rightarrow> [] | Some rs \<Rightarrow> rs)))
       (\<lambda>err. bind (console_out (ConsoleError ''Failed to get reminders:'' err))
          (\<lambda>_. return []))"

definition saveReminder :: "env \<Rightarrow> reminder \<Rightarrow> unit io" where
  "saveReminder e r =
     try_catch
       (bind (getReminders e) (\<lambda>existingReminders.
          let updatedReminders = filter (\<lambda>x. id_rem x \<noteq> id_rem r) existingReminders @ [r]
          in setItem_reminders e updatedReminders))
       (\<lambda>err. console_out (ConsoleError ''Failed to save reminder:'' err))"

definition deleteReminder :: "env \<Rightarrow> string \<Rightarrow> unit io" where
  "deleteReminder e reminderId =
     try_catch
       (bind (getReminders e) (\<lambda>reminders.
        bind (case find (\<lambda>r. id_rem r = reminderId) reminders of
                None \<Rightarrow> return ()
              | Some r \<Rightarrow>
                  (case notificationId r of
                     None \<Rightarrow> return ()
                   | Some h \<Rightarrow> if truthy (Some h) then cancelReminder e h else return ()))
          (\<lambda>_.
        let updatedReminders = filter (\<lambda>r. id_rem r \<noteq> reminderId) reminders
        in setItem_reminders e updatedReminders)))
       (\<lambda>err. console_out (ConsoleError ''Failed to delete reminder:'' err))"

definition weekday_of :: "int \<Rightarrow> int" where
  "weekday_of dayOfWeek = (if dayOfWeek = 0 then 1 else dayOfWeek + 1)"

definition reminder_request :: "reminder \<Rightarrow> jsnum option \<Rightarrow> jsnum option \<Rightarrow> int \<Rightarrow> request" where
  "reminder_request r hours minutes dayOfWeek =
     \<lparr>content =
        \<lparr>title = symbol_reminder @ '' Medicine Reminder'',
         body = ''Time to take '' @ medicationName r @ '' ('' @ dosage r @ '')'',
         data = [(''medicationId'', medicationId r), (''reminderTime'', scheduledTime r),
                 (''type'', ''medicine_reminder'')],
         sound = True,
         priority = Some ''HIGH'',
         categoryIdentifier = Some ''medicine_reminder''\<rparr>,
      trigger = WeeklyTrigger (weekday_of dayOfWeek) hours minutes True\<rparr>"

text \<open>The loop over \<^verbatim>\<open>reminder.days\<close>; \<open>ids\<close> is \<^verbatim>\<open>notificationIds\<close>.\<close>

fun schedule_days ::
  "env \<Rightarrow> reminder \<Rightarrow> jsnum option \<Rightarrow> jsnum option \<Rightarrow> int list \<Rightarrow> string list \<Rightarrow> string list io"
where
  "schedule_days e r hours minutes [] ids = return ids"
| "schedule_days e r hours minutes (dayOfWeek # rest) ids =
     bind (scheduleNotificationAsync e (reminder_request r hours minutes dayOfWeek))
       (\<lambda>notificationId. schedule_days e r hours minutes rest (ids @ [notificationId]))"

text \<open>
  What \<^verbatim>\<open>scheduleReminder\<close> resolves to. Its declared type is \<^verbatim>\<open>string | null\<close>, but
  \<^verbatim>\<open>notificationIds[0]\<close> of an empty array is \<^verbatim>\<open>undefined\<close>, so the model keeps the three
  values apart.
\<close>

datatype js_handle = Handle string | Null | Undefined

definition handle_of :: "string option \<Rightarrow> js_handle" where
  "handle_of v = (case v of None \<Rightarrow> Undefined | Some h \<Rightarrow> Handle h)"

definition scheduleReminder :: "env \<Rightarrow> reminder \<Rightarrow> js_handle io" where
  "scheduleReminder e r =
     try_catch
       (if \<not> enabled r then return Null
        else
          bind (case notificationId r of
                  None \<Rightarrow> return ()
                | Some h \<Rightarrow> if truthy (Some h) then cancelReminder e h else return ()) (\<lambda>_.
          let parts = map js_Number (split_colon (scheduledTime r));
              hours = first_of parts;
              minutes = second_of parts
          in
          bind (schedule_days e r hours minutes (days r) []) (\<lambda>notificationIds.
          let primaryNotificationId = first_of notificationIds
          in
          bind (saveReminder e (r\<lparr>notificationId := primaryNotificationId\<rparr>)) (\<lambda>_.
          return (handle_of primaryNotificationId)))))
       (\<lambda>err. bind (console_out (ConsoleError ''Failed to schedule reminder:'' err))
          (\<lambda>_. return Null))"

definition display_name :: "medication list \<Rightarrow> string \<Rightarrow> string" where
  "display_name ms mid =
     (case find (\<lambda>m. id_med m = mid) ms of
        None \<Rightarrow> ''Medication''
      | Some m \<Rightarrow> if name_med m = [] then ''Medication'' else name_med m)"

definition mark_taken :: "env \<Rightarrow> string \<Rightarrow> medication \<Rightarrow> medication" where
  "mark_taken e mid med =
     (if id_med med = mid
      then med\<lparr>lastTaken := Some (now e), adherence := min 100 (adherence med + 2)\<rparr>
      else med)"

definition handleMedicationTaken :: "env \<Rightarrow> string \<Rightarrow> string \<Rightarrow> unit io" where
  "handleMedicationTaken e mid reminderTime =
     try_catch
       (bind (getItem_medications e) (\<lambda>medicationsData.
          case medicationsData of
            None \<Rightarrow> return ()
          | Some meds \<Rightarrow>
              let updatedMedications = map (mark_taken e mid) meds
              in
              bind (setItem_medications e updatedMedications) (\<lambda>_.
              bind (showLocalNotification e (symbol_recorded @ '' Dose Recorded'')
                      (display_name meds mid @ '' marked as taken'')
                      [(''type'', ''confirmation'')]) (\<lambda>_.
              console_out (ConsoleLog ''Medication marked as taken:'')))))
       (\<lambda>err. console_out (ConsoleError ''Error handling medication taken:'' err))"

definition snooze_name :: "medication list option \<Rightarrow> string \<Rightarrow> string" where
  "snooze_name medicationsData mid =
     (case medicationsData of
        None \<Rightarrow> ''Your medication''
      | Some meds \<Rightarrow>
          (case find (\<lambda>med. id_med med = mid) meds of
             None \<Rightarrow> ''Your medication''
           | Some med \<Rightarrow> name_med med @ '' ('' @ dosage_med med @ '')''))"

text \<open>In the body of the confirmation, \<^verbatim>\<open>${snoozeMinutes}\<close> is written out as 15.\<close>

definition handleSnoozeReminder :: "env \<Rightarrow> string \<Rightarrow> string \<Rightarrow> unit io" where
  "handleSnoozeReminder e mid reminderTime =
     try_catch
       (let snoozeMinutes = (15 :: int);
            trig = TimeIntervalTrigger (snoozeMinutes * 60) False
        in
        bind (getItem_medications e) (\<lambda>medicationsData.
        let medicationName = snooze_name medicationsData mid
        in
        bind (scheduleNotificationAsync e
                \<lparr>content =
                   \<lparr>title = symbol_snoozed @ '' Snoozed Reminder'',
                    body = ''Don't forget to take '' @ medicationName,
                    data = [(''medicationId'', mid), (''reminderTime'', reminderTime),
                            (''type'', ''snoozed_reminder'')],
                    sound = True,
                    priority = Some ''HIGH'',
                    categoryIdentifier = Some ''medicine_reminder''\<rparr>,
                 trigger = trig\<rparr>) (\<lambda>_.
        bind (showLocalNotification e (symbol_snoozed @ '' Reminder Snoozed'')
                ''We'll remind you again in 15 minutes''
                [(''type'', ''confirmation'')]) (\<lambda>_.
        console_out (ConsoleLog ''Reminder snoozed for:'')))))
       (\<lambda>err. console_out (ConsoleError ''Error handling snooze reminder:'' err))"

text \<open>A delivered response: the action and \<^verbatim>\<open>notification.request.content.data\<close>
  (\<open>None\<close> when the notification carries no data); \<open>payload_of\<close> is \<^verbatim>\<open>data || {}\<close>.\<close>

record response =
  actionIdentifier :: string
  notification_data :: "(string \<times> string) list option"

text \<open>The callback handed to \<^verbatim>\<open>addNotificationResponseReceivedListener\<close>.\<close>

definition payload_of :: "response \<Rightarrow> (string \<times> string) list" where
  "payload_of resp = (case notification_data resp of None \<Rightarrow> [] | Some d \<Rightarrow> d)"

definition responseListener :: "env \<Rightarrow> response \<Rightarrow> unit io" where
  "responseListener e resp =
     (let d = payload_of resp;
          medicationId = map_of d ''medicationId'';
          reminderTime = map_of d ''reminderTime''
      in
      if \<not> truthy medicationId \<or> \<not> truthy reminderTime then return ()
      else
        (case (medicationId, reminderTime) of
           (Some mid, Some t) \<Rightarrow>
             try_catch
               (if actionIdentifier resp = ''taken'' then handleMedicationTaken e mid t
                else if actionIdentifier resp = ''snooze'' then handleSnoozeReminder e mid t
                else console_out (ConsoleLog ''Notification tapped, opening app''))
               (\<lambda>err. console_out (ConsoleError ''Error handling notification response:'' err))
         | _ \<Rightarrow> return ()))"

definition initialize :: "env \<Rightarrow> unit io" where
  "initialize e w =
     (if isInitialized w then (Inr (), w)
      else
        try_catch
          (bind (platform e SetNotificationHandler) (\<lambda>_.
           bind (requestPermissions e) (\<lambda>_.
           bind (if isDevice e then
                   bind (registerForPushNotificationsAsync e)
                     (\<lambda>tok w'. (Inr (), w'\<lparr>expoPushToken := tok\<rparr>))
                 else return ()) (\<lambda>_.
           bind (platform e AddNotificationResponseReceivedListener) (\<lambda>_.
           bind (\<lambda>w'. (Inr (), w'\<lparr>isInitialized := True\<rparr>)) (\<lambda>_.
           console_out (ConsoleLog ''NotificationService initialized successfully'')))))))
          (\<lambda>err. bind (console_out (ConsoleError ''Failed to initialize NotificationService:'' err))
             (\<lambda>_. throw err))
          w)"

definition testNotification :: "env \<Rightarrow> unit io" where
  "testNotification e =
     try_catch
       (bind (showLocalNotification e (symbol_test @ '' Test Notification'')
                ''This is a test notification to verify the service is working correctly.''
                [(''type'', ''test'')]) (\<lambda>_. return ()))
       (\<lambda>err. bind (console_out (ConsoleError ''Failed to send test notification:'' err))
          (\<lambda>_. throw err))"

section \<open>Vocabulary of the properties\<close>

text \<open>The calls an operation issued: what it appended to the sequence of calls.\<close>

definition issued :: "world \<Rightarrow> world \<Rightarrow> call list" where
  "issued w w' = drop (length (calls w)) (calls w')"

fun is_schedule :: "call \<Rightarrow> bool" where
  "is_schedule (ScheduleNotificationAsync q) = True"
| "is_schedule _ = False"

fun is_cancel :: "call \<Rightarrow> bool" where
  "is_cancel (CancelScheduledNotificationAsync h) = True"
| "is_cancel CancelAllScheduledNotificationsAsync = True"
| "is_cancel _ = False"

text \<open>Calls to the trigger registrar: registering, sending at once, cancelling.\<close>

definition is_registrar :: "call \<Rightarrow> bool" where
  "is_registrar c = (is_schedule c \<or> is_cancel c)"

fun is_write :: "call \<Rightarrow> bool" where
  "is_write (SetItemMedications v) = True"
| "is_write (SetItemReminders v) = True"
| "is_write _ = False"

fun is_store :: "call \<Rightarrow> bool" where
  "is_store (GetItem k) = True"
| "is_store c = is_write c"

text \<open>The requests of the scheduling calls in a sequence of calls, in order.\<close>

fun scheduled :: "call list \<Rightarrow> request list" where
  "scheduled [] = []"
| "scheduled (ScheduleNotificationAsync q # cs) = q # scheduled cs"
| "scheduled (c # cs) = scheduled cs"

text \<open>The registered triggers among them: a request with trigger \<^verbatim>\<open>null\<close> is shown at once
  and registers nothing.\<close>

definition registered :: "call list \<Rightarrow> request list" where
  "registered cs = filter (\<lambda>q. trigger q \<noteq> NullTrigger) (scheduled cs)"

text \<open>The triggers that a sequence of calls leaves registered, each under the handle it was
  given, when the first call of the sequence is the \<open>n\<close>-th call issued: a scheduling call
  registers its request unless it is rejected or its trigger is \<^verbatim>\<open>null\<close>.\<close>

fun registrations :: "env \<Rightarrow> nat \<Rightarrow> call list \<Rightarrow> (string \<times> request) list" where
  "registrations e n [] = []"
| "registrations e n (ScheduleNotificationAsync q # cs) =
     (if fails e (ScheduleNotificationAsync q) n \<or> trigger q = NullTrigger then []
      else [(newId e n, q)]) @ registrations e (Suc n) cs"
| "registrations e n (c # cs) = registrations e (Suc n) cs"

text \<open>Environments in which the store, respectively the scheduler, rejects no call.\<close>

definition store_reliable :: "env \<Rightarrow> bool" where
  "store_reliable e = (\<forall>c n. is_store c \<longrightarrow> \<not> fails e c n)"

definition scheduler_reliable :: "env \<Rightarrow> bool" where
  "scheduler_reliable e = (\<forall>c n. is_schedule c \<longrightarrow> \<not> fails e c n)"

text \<open>The time of day \<open>h:m\<close> written as \<^verbatim>\<open>HH:MM\<close>.\<close>

definition digit_char :: "nat \<Rightarrow> char" where
  "digit_char d = ''0123456789'' ! d"

definition hhmm :: "nat \<Rightarrow> nat \<Rightarrow> string" where
  "hhmm h m = [digit_char (h div 10), digit_char (h mod 10), CHR '':'',
               digit_char (m div 10), digit_char (m mod 10)]"

definition ids_distinct :: "reminder list option \<Rightarrow> bool" where
  "ids_distinct stored = (case stored of None \<Rightarrow> True | Some rs \<Rightarrow> distinct (map id_rem rs))"

text \<open>The calls of a sequence that the platform rejects, when the first of them is the
  \<open>n\<close>-th call issued; and the errors that \<^verbatim>\<open>console.error\<close> was given.\<close>

fun rejected :: "env \<Rightarrow> nat \<Rightarrow> call list \<Rightarrow> call list" where
  "rejected e n [] = []"
| "rejected e n (c # cs) = (if fails e c n then [c] else []) @ rejected e (Suc n) cs"

fun logged_errors :: "log_entry list \<Rightarrow> error list" where
  "logged_errors [] = []"
| "logged_errors (ConsoleError msg err # ls) = err # logged_errors ls"
| "logged_errors (l # ls) = logged_errors ls"

definition printed :: "world \<Rightarrow> world \<Rightarrow> log_entry list" where
  "printed w w' = drop (length (console w)) (console w')"

text \<open>Every call that the platform rejected during an operation was reported on the console.\<close>

definition logs_rejections :: "env \<Rightarrow> world \<Rightarrow> world \<Rightarrow> bool" where
  "logs_rejections e w w' =
     (set (map Rejected (rejected e (length (calls w)) (issued w w')))
        \<subseteq> set (logged_errors (printed w w')))"

text \<open>The reminder collections that a sequence of calls writes to the store.\<close>

fun written :: "call list \<Rightarrow> reminder list list" where
  "written [] = []"
| "written (SetItemReminders xs # cs) = xs # written cs"
| "written (c # cs) = written cs"

definition duplicate_free :: "reminder list \<Rightarrow> bool" where
  "duplicate_free rs = distinct (map id_rem rs)"

subsection \<open>Pieces of the operations, named for the proofs\<close>

text \<open>The stored reminders as \<^verbatim>\<open>getReminders\<close> reads them: a missing key is the empty list.\<close>

definition stored_reminders :: "world \<Rightarrow> reminder list" where
  "stored_reminders w = (case medication_reminders w of None \<Rightarrow> [] | Some rs \<Rightarrow> rs)"

text \<open>The cancel call that a reminder's handle causes, and the world after that step.\<close>

definition cancel_calls :: "reminder \<Rightarrow> call list" where
  "cancel_calls r =
     (case notificationId r of
        None \<Rightarrow> []
      | Some h \<Rightarrow> if h = [] then [] else [CancelScheduledNotificationAsync h])"

definition live_after_cancel ::
  "env \<Rightarrow> nat \<Rightarrow> reminder \<Rightarrow> (string \<times> request) list \<Rightarrow> (string \<times> request) list" where
  "live_after_cancel e n r lv =
     (case notificationId r of
        None \<Rightarrow> lv
      | Some h \<Rightarrow>
          if h = [] \<or> fails e (CancelScheduledNotificationAsync h) n then lv
          else filter (\<lambda>x. fst x \<noteq> h) lv)"

definition after_cancel :: "env \<Rightarrow> reminder \<Rightarrow> world \<Rightarrow> world" where
  "after_cancel e r w =
     w\<lparr>calls := calls w @ cancel_calls r,
       live := live_after_cancel e (length (calls w)) r (live w),
       console := console w @
         map (ConsoleError ''Failed to cancel reminder:'' \<circ> Rejected)
           (rejected e (length (calls w)) (cancel_calls r))\<rparr>"

text \<open>The scheduling call of \<^verbatim>\<open>scheduleReminder\<close> for one day of the week.\<close>

definition weekly_call :: "reminder \<Rightarrow> int \<Rightarrow> call" where
  "weekly_call r d =
     ScheduleNotificationAsync
       (reminder_request r (first_of (map js_Number (split_colon (scheduledTime r))))
          (second_of (map js_Number (split_colon (scheduledTime r)))) d)"

subsection \<open>Concrete inputs\<close>

text \<open>A quiet platform and a fresh installation, for the concrete instances below.\<close>

definition env0 :: env where
  "env0 = \<lparr>fails = (\<lambda>_ _. False), newId = (\<lambda>n. replicate (Suc n) CHR ''n''),
     now = ''2024-05-01T09:00:00.000Z'', platformOS = ''ios'', notificationInWindow = False,
     webPermission = ''denied'', existingStatus = ''undetermined'',
     requestedStatus = ''granted'', isDevice = True, pushToken = ''ExponentPushToken[x]''\<rparr>"

definition world0 :: world where
  "world0 = \<lparr>medications = None, medication_reminders = None, live = [], calls = [],
     console = [],
     isInitialized = False, expoPushToken = None\<rparr>"


definition aspirin :: medication where
  "aspirin = \<lparr>id_med = ''m1'', name_med = ''Aspirin'', dosage_med = ''100mg'',
     frequency = ''daily'', times_med = [''09:00''], lastTaken = None, adherence = 99,
     reminderEnabled = True, color = ''#FF0000''\<rparr>"

definition ibuprofen :: medication where
  "ibuprofen = \<lparr>id_med = ''m2'', name_med = ''Ibuprofen'', dosage_med = ''200mg'',
     frequency = ''daily'', times_med = [''20:00''], lastTaken = None, adherence = 50,
     reminderEnabled = False, color = ''#00FF00''\<rparr>"

definition world_meds :: world where
  "world_meds = world0\<lparr>medications := Some [aspirin, ibuprofen]\<rparr>"

definition rem_weekdays :: reminder where
  "rem_weekdays = \<lparr>id_rem = ''r1'', medicationId = ''m1'', medicationName = ''Aspirin'',
     dosage = ''100mg'', scheduledTime = ''09:00'', days = [1, 3, 5], enabled = True,
     notificationId = None\<rparr>"

definition rem_no_days :: reminder where
  "rem_no_days = rem_weekdays\<lparr>days := []\<rparr>"

definition rem_rescheduled :: reminder where
  "rem_rescheduled = rem_weekdays\<lparr>notificationId := Some ''old-handle''\<rparr>"

definition rem_stale :: reminder where
  "rem_stale = rem_rescheduled\<lparr>days := []\<rparr>"

definition rem_monday :: reminder where
  "rem_monday = rem_rescheduled\<lparr>days := [1]\<rparr>"

definition monday_request :: request where
  "monday_request = reminder_request rem_monday (Some (Num 9)) (Some (Num 0)) 1"

text \<open>A world in which the trigger of \<open>rem_monday\<close> is live under its handle, and a platform
  that rejects cancellations and nothing else.\<close>

definition world_live :: world where
  "world_live = world0\<lparr>live := [(''old-handle'', monday_request)]\<rparr>"

definition env_cancel_rejected :: env where
  "env_cancel_rejected = env0\<lparr>fails := (\<lambda>c n. is_cancel c)\<rparr>"

text \<open>A platform that rejects the request for the push token and nothing else.\<close>

definition env_token_rejected :: env where
  "env_token_rejected = env0\<lparr>fails := (\<lambda>c n. c = GetExpoPushTokenAsync)\<rparr>"

definition resp_no_time :: response where
  "resp_no_time = \<lparr>actionIdentifier = ''taken'',
     notification_data = Some [(''medicationId'', ''m1'')]\<rparr>"

definition world_rems :: world where
  "world_rems = world0\<lparr>medication_reminders := Some [rem_rescheduled]\<rparr>"

text \<open>A platform that rejects every call.\<close>

definition env_rejecting :: env where
  "env_rejecting = env0\<lparr>fails := (\<lambda>_ _. True)\<rparr>"

section \<open>Basic facts\<close>

lemma platform_eq:
  "platform e c w =
     (if fails e c (length (calls w)) then Inl (Rejected c) else Inr (length (calls w)),
      w\<lparr>calls := calls w @ [c]\<rparr>)"
  by (simp add: platform_def Let_def)

lemmas io_defs = bind_def try_catch_def return_def throw_def console_out_def platform_eq

lemma store_reliableD: "store_reliable e \<Longrightarrow> is_store c \<Longrightarrow> \<not> fails e c n"
  by (simp add: store_reliable_def)

lemma scheduler_reliableD: "scheduler_reliable e \<Longrightarrow> is_schedule c \<Longrightarrow> \<not> fails e c n"
  by (simp add: scheduler_reliable_def)

lemma env0_reliable: "store_reliable env0" "scheduler_reliable env0"
  by (simp_all add: store_reliable_def scheduler_reliable_def env0_def)

section \<open>What the wrapped operations do\<close>

lemma cancelReminder_effect:
  "cancelReminder e h w =
     (Inr (), w\<lparr>calls := calls w @ [CancelScheduledNotificationAsync h],
                live :=
                  (if fails e (CancelScheduledNotificationAsync h) (length (calls w))
                   then live w else filter (\<lambda>x. fst x \<noteq> h) (live w)),
                console := console w @
                  (if fails e (CancelScheduledNotificationAsync h) (length (calls w))
                   then [ConsoleError ''Failed to cancel reminder:''
                           (Rejected (CancelScheduledNotificationAsync h))]
                   else [])\<rparr>)"
  by (simp add: cancelReminder_def cancelScheduledNotificationAsync_def io_defs)

lemma getReminders_effect:
  "getReminders e w =
     (Inr (if fails e (GetItem ''medication_reminders'') (length (calls w)) then []
           else stored_reminders w),
      w\<lparr>calls := calls w @ [GetItem ''medication_reminders''],
        console := console w @
          (if fails e (GetItem ''medication_reminders'') (length (calls w))
           then [ConsoleError ''Failed to get reminders:''
                   (Rejected (GetItem ''medication_reminders''))]
           else [])\<rparr>)"
  by (simp add: getReminders_def getItem_reminders_def io_defs stored_reminders_def)

lemma saveReminder_effect:
  "saveReminder e r w =
     (let n = length (calls w);
          rs = (if fails e (GetItem ''medication_reminders'') n then [] else stored_reminders w);
          xs = filter (\<lambda>x. id_rem x \<noteq> id_rem r) rs @ [r]
      in (Inr (),
          w\<lparr>calls := calls w @ [GetItem ''medication_reminders'', SetItemReminders xs],
            console := console w @
              (if fails e (GetItem ''medication_reminders'') n
               then [ConsoleError ''Failed to get reminders:''
                       (Rejected (GetItem ''medication_reminders''))]
               else []) @
              (if fails e (SetItemReminders xs) (Suc n)
               then [ConsoleError ''Failed to save reminder:'' (Rejected (SetItemReminders xs))]
               else []),
            medication_reminders :=
              (if fails e (SetItemReminders xs) (Suc n) then medication_reminders w
               else Some xs)\<rparr>))"
  by (simp add: saveReminder_def getReminders_effect setItem_reminders_def io_defs Let_def)



lemma rejected_append:
  "rejected e n (xs @ ys) = rejected e n xs @ rejected e (n + length xs) ys"
  by (induction xs arbitrary: n) simp_all

lemma logged_errors_append: "logged_errors (xs @ ys) = logged_errors xs @ logged_errors ys"
  by (induction xs rule: logged_errors.induct) simp_all

lemma rejected_reliable:
  "scheduler_reliable e \<Longrightarrow> list_all is_schedule cs \<Longrightarrow> rejected e n cs = []"
  by (induction cs arbitrary: n) (simp_all add: scheduler_reliableD)

lemma registrations_append:
  "registrations e n (xs @ ys) = registrations e n xs @ registrations e (n + length xs) ys"
  by (induction e n xs rule: registrations.induct) simp_all

lemma schedule_days_effect:
  "\<exists>res k. k \<le> length ds \<and>
     schedule_days e r h m ds ids w =
       (res, w\<lparr>calls := calls w @
                 map (\<lambda>d. ScheduleNotificationAsync (reminder_request r h m d)) (take k ds),
               live := live w @ registrations e (length (calls w))
                 (map (\<lambda>d. ScheduleNotificationAsync (reminder_request r h m d)) (take k ds))\<rparr>) \<and>
     (\<forall>ids'. res = Inr ids' \<longrightarrow> k = length ds \<and> length ids' = length ids + length ds) \<and>
     map Rejected (rejected e (length (calls w))
        (map (\<lambda>d. ScheduleNotificationAsync (reminder_request r h m d)) (take k ds))) =
       (case res of Inl err \<Rightarrow> [err] | Inr _ \<Rightarrow> [])"
proof (induction ds arbitrary: ids w)
  case Nil
  show ?case by (simp add: return_def)
next
  case (Cons d ds)
  let ?f = "\<lambda>d. ScheduleNotificationAsync (reminder_request r h m d)"
  let ?id = "newId e (length (calls w))"
  have weekly: "trigger (reminder_request r h m d) \<noteq> NullTrigger"
    by (simp add: reminder_request_def)
  show ?case
  proof (cases "fails e (?f d) (length (calls w))")
    case True
    then have "schedule_days e r h m (d # ds) ids w =
        (Inl (Rejected (?f d)), w\<lparr>calls := calls w @ [?f d]\<rparr>)"
      by (simp add: scheduleNotificationAsync_def io_defs)
    with True show ?thesis
      by (intro exI [of _ "Inl (Rejected (?f d))"] exI [of _ "Suc 0"]) simp
  next
    case False
    let ?w1 = "w\<lparr>calls := calls w @ [?f d],
      live := live w @ [(?id, reminder_request r h m d)]\<rparr>"
    from Cons.IH [of "ids @ [?id]" ?w1]
    obtain res k where k: "k \<le> length ds"
      and run: "schedule_days e r h m ds (ids @ [?id]) ?w1 =
         (res, ?w1\<lparr>calls := calls ?w1 @ map ?f (take k ds),
                 live := live ?w1 @ registrations e (length (calls ?w1)) (map ?f (take k ds))\<rparr>)"
      and ok: "\<forall>ids'. res = Inr ids' \<longrightarrow>
          k = length ds \<and> length ids' = length (ids @ [?id]) + length ds"
      and rej: "map Rejected (rejected e (length (calls ?w1)) (map ?f (take k ds))) =
          (case res of Inl err \<Rightarrow> [err] | Inr _ \<Rightarrow> [])"
      by blast
    from False run weekly
    have "schedule_days e r h m (d # ds) ids w =
        (res, w\<lparr>calls := calls w @ map ?f (take (Suc k) (d # ds)),
                live := live w @ registrations e (length (calls w))
                  (map ?f (take (Suc k) (d # ds)))\<rparr>)"
      by (simp add: scheduleNotificationAsync_def io_defs)
    moreover from False rej
    have "map Rejected (rejected e (length (calls w)) (map ?f (take (Suc k) (d # ds)))) =
          (case res of Inl err \<Rightarrow> [err] | Inr _ \<Rightarrow> [])"
      by simp
    ultimately show ?thesis
      using k ok by (intro exI [of _ res] exI [of _ "Suc k"]) simp
  qed
qed

lemma cancel_step:
  "(case notificationId r of
      None \<Rightarrow> return ()
    | Some h \<Rightarrow> if truthy (Some h) then cancelReminder e h else return ()) w =
   (Inr (), after_cancel e r w)"
  by (simp add: after_cancel_def cancel_calls_def live_after_cancel_def cancelReminder_effect
      truthy_def return_def split: option.split)

text \<open>The two ways an enabled reminder leaves \<^verbatim>\<open>scheduleReminder\<close>: a scheduling call
  was rejected and the handler logged it, or every day was scheduled and the reminder saved.\<close>

lemma scheduleReminder_cases:
  assumes "enabled r"
  obtains (rejected) k err where "k \<le> length (days r)"
      and "scheduleReminder e r w =
        (Inr Null,
         (after_cancel e r w)
           \<lparr>calls := calls (after_cancel e r w) @ map (weekly_call r) (take k (days r)),
            live := live (after_cancel e r w) @
              registrations e (length (calls (after_cancel e r w)))
                (map (weekly_call r) (take k (days r))),
            console := console (after_cancel e r w) @
              [ConsoleError ''Failed to schedule reminder:'' err]\<rparr>)"
      and "map Rejected (rejected e (length (calls (after_cancel e r w)))
             (map (weekly_call r) (take k (days r)))) = [err]"
  | (saved) ids where "length ids = length (days r)"
      and "scheduleReminder e r w =
        (Inr (handle_of (first_of ids)),
         snd (saveReminder e (r\<lparr>notificationId := first_of ids\<rparr>)
           ((after_cancel e r w)
              \<lparr>calls := calls (after_cancel e r w) @ map (weekly_call r) (days r),
               live := live (after_cancel e r w) @
                 registrations e (length (calls (after_cancel e r w)))
                   (map (weekly_call r) (days r))\<rparr>)))"
      and "rejected e (length (calls (after_cancel e r w))) (map (weekly_call r) (days r)) = []"
proof -
  let ?h = "first_of (map js_Number (split_colon (scheduledTime r)))"
  let ?m = "second_of (map js_Number (split_colon (scheduledTime r)))"
  let ?w1 = "after_cancel e r w"
  from schedule_days_effect [of "days r" e r ?h ?m "[]" ?w1]
  obtain res k where k: "k \<le> length (days r)"
    and run: "schedule_days e r ?h ?m (days r) [] ?w1 =
       (res, ?w1\<lparr>calls := calls ?w1 @ map (weekly_call r) (take k (days r)),
               live := live ?w1 @ registrations e (length (calls ?w1))
                 (map (weekly_call r) (take k (days r)))\<rparr>)"
    and ok: "\<forall>ids'. res = Inr ids' \<longrightarrow> k = length (days r) \<and> length ids' = length (days r)"
    and rej: "map Rejected (rejected e (length (calls ?w1))
        (map (weekly_call r) (take k (days r)))) = (case res of Inl err \<Rightarrow> [err] | Inr _ \<Rightarrow> [])"
    unfolding weekly_call_def by auto
  show thesis
  proof (cases res)
    case (Inl err)
    with assms run have "scheduleReminder e r w =
        (Inr Null, ?w1\<lparr>calls := calls ?w1 @ map (weekly_call r) (take k (days r)),
            live := live ?w1 @ registrations e (length (calls ?w1))
              (map (weekly_call r) (take k (days r))),
            console := console ?w1 @ [ConsoleError ''Failed to schedule reminder:'' err]\<rparr>)"
      by (simp add: scheduleReminder_def cancel_step Let_def bind_def try_catch_def
          console_out_def return_def)
    with k rej Inl show thesis by (intro rejected) simp_all
  next
    case (Inr ids)
    with ok have k_all: "k = length (days r)" and len: "length ids = length (days r)" by auto
    from assms run Inr k_all
    have "scheduleReminder e r w =
        (Inr (handle_of (first_of ids)),
         snd (saveReminder e (r\<lparr>notificationId := first_of ids\<rparr>)
           (?w1\<lparr>calls := calls ?w1 @ map (weekly_call r) (days r),
                live := live ?w1 @ registrations e (length (calls ?w1))
                  (map (weekly_call r) (days r))\<rparr>)))"
      by (simp add: scheduleReminder_def cancel_step Let_def bind_def try_catch_def return_def
          saveReminder_effect)
    moreover from rej Inr k_all
    have "rejected e (length (calls ?w1)) (map (weekly_call r) (days r)) = []" by simp
    ultimately show thesis using len by (intro saved)
  qed
qed

lemma after_cancel_simps [simp]:
  "calls (after_cancel e r w) = calls w @ cancel_calls r"
  "live (after_cancel e r w) = live_after_cancel e (length (calls w)) r (live w)"
  "medication_reminders (after_cancel e r w) = medication_reminders w"
  "medications (after_cancel e r w) = medications w"
  by (simp_all add: after_cancel_def)

lemma stored_reminders_frame:
  "stored_reminders (w\<lparr>calls := cs\<rparr>) = stored_reminders w"
  "stored_reminders (w\<lparr>live := lv\<rparr>) = stored_reminders w"
  "stored_reminders (w\<lparr>console := ls\<rparr>) = stored_reminders w"
  "stored_reminders (after_cancel e r w) = stored_reminders w"
  by (simp_all add: stored_reminders_def)

lemma scheduled_append: "scheduled (xs @ ys) = scheduled xs @ scheduled ys"
  by (induction xs rule: scheduled.induct) simp_all

lemma scheduled_cancel_calls: "scheduled (cancel_calls r) = []"
  by (simp add: cancel_calls_def split: option.split)

lemma scheduled_weekly: "scheduled (map (weekly_call r) ds) =
    map (\<lambda>d. reminder_request r (first_of (map js_Number (split_colon (scheduledTime r))))
          (second_of (map js_Number (split_colon (scheduledTime r)))) d) ds"
  by (induction ds) (simp_all add: weekly_call_def)

lemma weekly_is_schedule: "list_all is_schedule (map (weekly_call r) ds)"
  by (induction ds) (simp_all add: weekly_call_def)

lemma digit_digit_char: "d < 10 \<Longrightarrow> digit (digit_char d) = Some d"
proof -
  assume "d < 10"
  then have "d \<in> {0, 1, 2, 3, 4, 5, 6, 7, 8, 9}" by auto
  then show ?thesis
    by (auto simp add: digit_def digit_char_def)
qed

lemma digit_char_not_colon: "d < 10 \<Longrightarrow> digit_char d \<noteq> CHR '':''"
  using digit_digit_char [of d] by (auto simp add: digit_def)

lemma parse_hhmm:
  assumes "h < 100" "m < 100"
  shows "map js_Number (split_colon (hhmm h m)) = [Num h, Num m]"
proof -
  have d: "h div 10 < 10" "h mod 10 < 10" "m div 10 < 10" "m mod 10 < 10"
    using assms by simp_all
  then show ?thesis
    by (simp add: hhmm_def digit_char_not_colon js_Number_def digit_digit_char)
qed

lemma handleMedicationTaken_store:
  assumes "store_reliable e" "medications w = Some ms"
  shows "medications (snd (handleMedicationTaken e mid t w)) = Some (map (mark_taken e mid) ms)"
  using assms
  by (simp add: handleMedicationTaken_def getItem_medications_def setItem_medications_def
      showLocalNotification_def scheduleNotificationAsync_def io_defs Let_def store_reliableD)

lemma hhmm_9_0: "hhmm 9 0 = ''09:00''"
  by (simp add: hhmm_def digit_char_def)

subsection \<open>Deleting and replacing stored reminders\<close>

lemma deleteReminder_effect:
  "deleteReminder e rid w =
     (let n = length (calls w);
          rs = (if fails e (GetItem ''medication_reminders'') n then [] else stored_reminders w);
          cc = (case find (\<lambda>r. id_rem r = rid) rs of None \<Rightarrow> [] | Some r \<Rightarrow> cancel_calls r);
          xs = filter (\<lambda>r. id_rem r \<noteq> rid) rs
      in (Inr (),
          w\<lparr>calls := calls w @ GetItem ''medication_reminders'' # cc @ [SetItemReminders xs],
            live :=
              (case find (\<lambda>r. id_rem r = rid) rs of
                 None \<Rightarrow> live w
               | Some r \<Rightarrow> live_after_cancel e (Suc n) r (live w)),
            console := console w @
              (if fails e (GetItem ''medication_reminders'') n
               then [ConsoleError ''Failed to get reminders:''
                       (Rejected (GetItem ''medication_reminders''))]
               else []) @
              map (ConsoleError ''Failed to cancel reminder:'' \<circ> Rejected)
                (rejected e (Suc n) cc) @
              (if fails e (SetItemReminders xs) (Suc n + length cc)
               then [ConsoleError ''Failed to delete reminder:'' (Rejected (SetItemReminders xs))]
               else []),
            medication_reminders :=
              (if fails e (SetItemReminders xs) (Suc n + length cc) then medication_reminders w
               else Some xs)\<rparr>))"
  by (simp add: deleteReminder_def getReminders_effect cancelReminder_effect
      setItem_reminders_def io_defs Let_def cancel_calls_def live_after_cancel_def truthy_def
      split: option.split)

lemma find_absent: "x \<notin> f ` set xs \<Longrightarrow> find (\<lambda>r. f r = x) xs = None"
  by (auto simp add: find_None_iff)

lemma filter_absent: "x \<notin> f ` set xs \<Longrightarrow> filter (\<lambda>r. f r \<noteq> x) xs = xs"
  by (induction xs) auto

lemma distinct_replace:
  "distinct (map f xs) \<Longrightarrow> distinct (map f (filter (\<lambda>x. f x \<noteq> f y) xs @ [y]))"
  by (auto simp add: distinct_map_filter)

lemma ids_distinct_stored:
  "ids_distinct (medication_reminders w) \<longleftrightarrow> distinct (map id_rem (stored_reminders w))"
  by (simp add: ids_distinct_def stored_reminders_def split: option.split)

lemma saveReminder_distinct:
  assumes "ids_distinct (medication_reminders w)"
  shows "ids_distinct (medication_reminders (snd (saveReminder e r w)))"
proof -
  from assms have "distinct (map id_rem (stored_reminders w))"
    by (simp add: ids_distinct_stored)
  then have "distinct (map id_rem
      (filter (\<lambda>x. id_rem x \<noteq> id_rem r) (stored_reminders w) @ [r]))"
    by (rule distinct_replace)
  with assms show ?thesis
    by (simp add: saveReminder_effect Let_def) (simp add: ids_distinct_def)
qed

lemma written_append: "written (xs @ ys) = written xs @ written ys"
  by (induction xs rule: written.induct) simp_all

lemma written_cancel_calls: "written (cancel_calls r) = []"
  by (simp add: cancel_calls_def split: option.split)

lemma written_weekly: "written (map (weekly_call r) ds) = []"
  by (induction ds) (simp_all add: weekly_call_def)

lemma saveReminder_written:
  assumes "ids_distinct (medication_reminders w)"
  shows "list_all duplicate_free (written (issued w (snd (saveReminder e r w))))"
proof -
  from assms have "distinct (map id_rem (stored_reminders w))"
    by (simp add: ids_distinct_stored)
  then have "distinct (map id_rem
      (filter (\<lambda>x. id_rem x \<noteq> id_rem r) (stored_reminders w) @ [r]))"
    by (rule distinct_replace)
  then show ?thesis
    by (simp add: saveReminder_effect Let_def issued_def duplicate_free_def)
qed

subsection \<open>Operations that swallow every rejection\<close>

lemma logged_errors_map:
  "logged_errors (map (ConsoleError msg \<circ> Rejected) cs) = map Rejected cs"
  by (induction cs) simp_all

lemma console_after_cancel:
  "console (after_cancel e r w) = console w @
     map (ConsoleError ''Failed to cancel reminder:'' \<circ> Rejected)
       (rejected e (length (calls w)) (cancel_calls r))"
  by (simp add: after_cancel_def)

lemmas logs_defs = logs_rejections_def issued_def printed_def rejected_append
  logged_errors_append logged_errors_map

lemma cancelReminder_safe:
  "fst (cancelReminder e h w) = Inr () \<and> logs_rejections e w (snd (cancelReminder e h w))"
  by (simp add: cancelReminder_effect logs_defs)

lemma cancelAllReminders_safe:
  "fst (cancelAllReminders e w) = Inr () \<and> logs_rejections e w (snd (cancelAllReminders e w))"
  by (simp add: cancelAllReminders_def cancelAllScheduledNotificationsAsync_def io_defs logs_defs)

lemma getReminders_safe:
  "(\<exists>rs. fst (getReminders e w) = Inr rs) \<and> logs_rejections e w (snd (getReminders e w)) \<and>
   (fails e (GetItem ''medication_reminders'') (length (calls w)) \<longrightarrow>
      fst (getReminders e w) = Inr [])"
  by (simp add: getReminders_effect logs_defs)

lemma deleteReminder_safe:
  "fst (deleteReminder e rid w) = Inr () \<and> logs_rejections e w (snd (deleteReminder e rid w))"
  by (simp add: deleteReminder_effect Let_def logs_defs)

lemma saveReminder_shape:
  "\<exists>xs ls mr. saveReminder e r w =
      (Inr (), w\<lparr>calls := calls w @ [GetItem ''medication_reminders'', SetItemReminders xs],
                 console := console w @ ls, medication_reminders := mr\<rparr>) \<and>
      set (map Rejected (rejected e (length (calls w))
             [GetItem ''medication_reminders'', SetItemReminders xs]))
        \<subseteq> set (logged_errors ls)"
proof -
  let ?n = "length (calls w)"
  let ?rs = "if fails e (GetItem ''medication_reminders'') ?n then [] else stored_reminders w"
  let ?xs = "filter (\<lambda>x. id_rem x \<noteq> id_rem r) ?rs @ [r]"
  let ?ls = "(if fails e (GetItem ''medication_reminders'') ?n
               then [ConsoleError ''Failed to get reminders:''
                       (Rejected (GetItem ''medication_reminders''))]
               else []) @
              (if fails e (SetItemReminders ?xs) (Suc ?n)
               then [ConsoleError ''Failed to save reminder:'' (Rejected (SetItemReminders ?xs))]
               else [])"
  let ?mr = "if fails e (SetItemReminders ?xs) (Suc ?n) then medication_reminders w
               else Some ?xs"
  show ?thesis
    by (intro exI [of _ ?xs] exI [of _ ?ls] exI [of _ ?mr])
      (simp add: saveReminder_effect Let_def)
qed

lemma scheduleReminder_safe:
  "(\<exists>v. fst (scheduleReminder e r w) = Inr v) \<and>
   logs_rejections e w (snd (scheduleReminder e r w)) \<and>
   ((\<exists>c \<in> set (rejected e (length (calls w)) (issued w (snd (scheduleReminder e r w)))).
       is_schedule c) \<longrightarrow> fst (scheduleReminder e r w) = Inr Null)"
proof (cases "enabled r")
  case False
  then show ?thesis
    by (simp add: scheduleReminder_def io_defs logs_defs)
next
  case True
  then show ?thesis
  proof (cases rule: scheduleReminder_cases [where e = e and w = w])
    case (rejected k err)
    from rejected(3) have "map Rejected (rejected e (length (calls w) + length (cancel_calls r))
        (map (weekly_call r) (take k (days r)))) = [err]"
      by simp
    with rejected(2) show ?thesis
      by (simp add: logs_defs console_after_cancel)
  next
    case (saved ids)
    let ?w2 = "(after_cancel e r w)
        \<lparr>calls := calls (after_cancel e r w) @ map (weekly_call r) (days r),
         live := live (after_cancel e r w) @
           registrations e (length (calls (after_cancel e r w)))
             (map (weekly_call r) (days r))\<rparr>"
    from saved(3) have none: "rejected e (length (calls w) + length (cancel_calls r))
        (map (weekly_call r) (days r)) = []"
      by simp
    have no_sched: "\<forall>c \<in> set (rejected e (length (calls w)) (cancel_calls r)). \<not> is_schedule c"
      by (simp add: cancel_calls_def split: option.split)
    from saveReminder_shape [of e "r\<lparr>notificationId := first_of ids\<rparr>" ?w2]
    obtain xs ls mr where shape: "saveReminder e (r\<lparr>notificationId := first_of ids\<rparr>) ?w2 =
        (Inr (), ?w2\<lparr>calls := calls ?w2 @ [GetItem ''medication_reminders'', SetItemReminders xs],
                 console := console ?w2 @ ls, medication_reminders := mr\<rparr>)"
      and logged: "set (map Rejected (rejected e (length (calls ?w2))
             [GetItem ''medication_reminders'', SetItemReminders xs]))
        \<subseteq> set (logged_errors ls)"
      by blast
    have result: "scheduleReminder e r w = (Inr (handle_of (first_of ids)),
        ?w2\<lparr>calls := calls ?w2 @ [GetItem ''medication_reminders'', SetItemReminders xs],
                 console := console ?w2 @ ls, medication_reminders := mr\<rparr>)"
      unfolding saved(2) shape by simp
    from logged none no_sched show ?thesis
      unfolding result by (auto simp add: logs_defs console_after_cancel add.assoc)
  qed
qed

lemma handleMedicationTaken_safe:
  "fst (handleMedicationTaken e mid t w) = Inr () \<and>
   logs_rejections e w (snd (handleMedicationTaken e mid t w))"
  by (simp add: handleMedicationTaken_def getItem_medications_def setItem_medications_def
      showLocalNotification_def scheduleNotificationAsync_def io_defs logs_defs Let_def
      split: option.split)

lemma handleSnoozeReminder_safe:
  "fst (handleSnoozeReminder e mid t w) = Inr () \<and>
   logs_rejections e w (snd (handleSnoozeReminder e mid t w))"
  by (simp add: handleSnoozeReminder_def getItem_medications_def
      showLocalNotification_def scheduleNotificationAsync_def io_defs logs_defs Let_def)

lemma try_catch_no_throw: "fst (m w) = Inr v \<Longrightarrow> try_catch m h w = m w"
  by (cases "m w") (auto simp add: try_catch_def)

lemma responseListener_safe:
  "fst (responseListener e resp w) = Inr () \<and>
   logs_rejections e w (snd (responseListener e resp w))"
proof (cases "truthy (map_of (payload_of resp) ''medicationId'') \<and>
    truthy (map_of (payload_of resp) ''reminderTime'')")
  case False
  then show ?thesis
    by (auto simp add: responseListener_def Let_def return_def logs_defs)
next
  case True
  then obtain mid t where fields: "map_of (payload_of resp) ''medicationId'' = Some mid"
      "map_of (payload_of resp) ''reminderTime'' = Some t"
    by (auto simp add: truthy_def split: option.splits)
  let ?body = "if actionIdentifier resp = ''taken'' then handleMedicationTaken e mid t
      else if actionIdentifier resp = ''snooze'' then handleSnoozeReminder e mid t
      else console_out (ConsoleLog ''Notification tapped, opening app'')"
  have body: "fst (?body w) = Inr () \<and> logs_rejections e w (snd (?body w))"
    using handleMedicationTaken_safe [of e mid t w] handleSnoozeReminder_safe [of e mid t w]
    by (simp add: console_out_def logs_defs)
  from True fields have "responseListener e resp w =
      try_catch ?body
        (\<lambda>err. console_out (ConsoleError ''Error handling notification response:'' err)) w"
    by (simp add: responseListener_def Let_def)
  also from body have "\<dots> = ?body w"
    by (intro try_catch_no_throw [where v = "()"]) simp
  finally show ?thesis
    using body by simp
qed

subsection \<open>Operations that log and rethrow\<close>

lemma rejected_subset: "set (rejected e n cs) \<subseteq> set cs"
  by (induction cs arbitrary: n) auto

lemma map_Rejected_single:
  "map Rejected xs = [err] \<Longrightarrow> \<exists>c. xs = [c] \<and> err = Rejected c"
  by (cases xs) auto

lemma showLocalNotification_policy:
  "(\<forall>err. fst (showLocalNotification e t b d w) = Inl err \<longleftrightarrow>
      (\<exists>c \<in> set (rejected e (length (calls w))
                 (issued w (snd (showLocalNotification e t b d w)))). err = Rejected c)) \<and>
   (\<forall>err. fst (showLocalNotification e t b d w) = Inl err \<longrightarrow>
      ConsoleError ''Failed to show local notification:'' err
        \<in> set (printed w (snd (showLocalNotification e t b d w))))"
  by (auto simp add: showLocalNotification_def scheduleNotificationAsync_def io_defs
      issued_def printed_def)

lemma testNotification_policy:
  "(\<forall>err. fst (testNotification e w) = Inl err \<longleftrightarrow>
      (\<exists>c \<in> set (rejected e (length (calls w)) (issued w (snd (testNotification e w)))).
         err = Rejected c)) \<and>
   (\<forall>err. fst (testNotification e w) = Inl err \<longrightarrow>
      ConsoleError ''Failed to send test notification:'' err
        \<in> set (printed w (snd (testNotification e w))))"
  by (auto simp add: testNotification_def showLocalNotification_def
      scheduleNotificationAsync_def io_defs issued_def printed_def)

text \<open>The steps of \<^verbatim>\<open>initialize\<close>: asking for permission throws what the platform rejects;
  fetching the push token never throws.\<close>

lemma requestPermissions_shape:
  "\<exists>cs ls. calls (snd (requestPermissions e w)) = calls w @ cs \<and>
      console (snd (requestPermissions e w)) = console w @ ls \<and>
      isInitialized (snd (requestPermissions e w)) = isInitialized w \<and>
      GetExpoPushTokenAsync \<notin> set cs \<and> logged_errors ls = [] \<and>
      map Rejected (rejected e (length (calls w)) cs) =
        (case fst (requestPermissions e w) of Inl err \<Rightarrow> [err] | Inr _ \<Rightarrow> [])"
  by (simp add: requestPermissions_def io_defs)

lemma push_token_step_shape:
  "\<exists>w3 cs ls.
      (if isDevice e then
         bind (registerForPushNotificationsAsync e)
           (\<lambda>tok w'. (Inr (), w'\<lparr>expoPushToken := tok\<rparr>))
       else return ()) w = (Inr (), w3) \<and>
      calls w3 = calls w @ cs \<and> console w3 = console w @ ls \<and>
      isInitialized w3 = isInitialized w \<and>
      set cs \<subseteq> {GetExpoPushTokenAsync} \<and>
      logged_errors ls = map Rejected (rejected e (length (calls w)) cs)"
  by (simp add: registerForPushNotificationsAsync_def io_defs)

lemma initialize_fresh:
  assumes fresh: "\<not> isInitialized w"
  shows "logs_rejections e w (snd (initialize e w)) \<and>
    (\<forall>err. fst (initialize e w) = Inl err \<longleftrightarrow>
       (\<exists>c \<in> set (rejected e (length (calls w)) (issued w (snd (initialize e w)))).
          c \<noteq> GetExpoPushTokenAsync \<and> err = Rejected c)) \<and>
    (\<forall>err. fst (initialize e w) = Inl err \<longrightarrow>
       ConsoleError ''Failed to initialize NotificationService:'' err
         \<in> set (printed w (snd (initialize e w))) \<and>
       \<not> isInitialized (snd (initialize e w))) \<and>
    (fst (initialize e w) = Inr () \<longrightarrow> isInitialized (snd (initialize e w)))"
proof -
  let ?n = "length (calls w)"
  let ?msg = "''Failed to initialize NotificationService:''"
  let ?w1 = "w\<lparr>calls := calls w @ [SetNotificationHandler]\<rparr>"
  let ?push = "if isDevice e then
         bind (registerForPushNotificationsAsync e)
           (\<lambda>tok w'. (Inr (), w'\<lparr>expoPushToken := tok\<rparr>))
       else return ()"
  show ?thesis
  proof (cases "fails e SetNotificationHandler ?n")
    case True
    with fresh have "initialize e w =
        (Inl (Rejected SetNotificationHandler),
         w\<lparr>calls := calls w @ [SetNotificationHandler],
           console := console w @ [ConsoleError ?msg (Rejected SetNotificationHandler)]\<rparr>)"
      by (simp add: initialize_def io_defs)
    with True fresh show ?thesis
      by (auto simp add: logs_defs)
  next
    case handler: False
    obtain res1 w2 where perm: "requestPermissions e ?w1 = (res1, w2)"
      by (cases "requestPermissions e ?w1")
    from requestPermissions_shape [of e ?w1] perm
    obtain cs ls where w2: "calls w2 = calls w @ SetNotificationHandler # cs"
        "console w2 = console w @ ls" "isInitialized w2 = isInitialized w"
      and cs: "GetExpoPushTokenAsync \<notin> set cs" and ls: "logged_errors ls = []"
      and rej: "map Rejected (rejected e (Suc ?n) cs) =
          (case res1 of Inl err \<Rightarrow> [err] | Inr _ \<Rightarrow> [])"
      by auto
    show ?thesis
    proof (cases res1)
      case (Inl err)
      with rej obtain c where c: "rejected e (Suc ?n) cs = [c]" "err = Rejected c"
        by (auto dest: map_Rejected_single)
      with rejected_subset [of e "Suc ?n" cs] cs have "c \<noteq> GetExpoPushTokenAsync"
        by auto
      moreover from fresh handler perm Inl have "initialize e w =
          (Inl err, w2\<lparr>console := console w2 @ [ConsoleError ?msg err]\<rparr>)"
        by (simp add: initialize_def io_defs)
      ultimately show ?thesis
        using handler fresh w2 ls c
        by (auto simp add: logs_defs)
    next
      case (Inr granted)
      with rej have none: "rejected e (Suc ?n) cs = []" by simp
      from push_token_step_shape [of e w2]
      obtain w3 cs3 ls3 where push: "?push w2 = (Inr (), w3)"
        and w3: "calls w3 = calls w2 @ cs3" "console w3 = console w2 @ ls3"
          "isInitialized w3 = isInitialized w2"
        and cs3: "set cs3 \<subseteq> {GetExpoPushTokenAsync}"
        and ls3: "logged_errors ls3 = map Rejected (rejected e (length (calls w2)) cs3)"
        by blast
      from rejected_subset [of e "length (calls w2)" cs3] cs3
      have only_token: "set (rejected e (length (calls w2)) cs3) \<subseteq> {GetExpoPushTokenAsync}"
        by blast
      let ?k = "length (calls w3)"
      have len: "length (calls w2) = Suc (?n + length cs)"
        "?k = Suc (?n + length cs + length cs3)"
        using w2 w3 by simp_all
      show ?thesis
      proof (cases "fails e AddNotificationResponseReceivedListener ?k")
        case True
        with fresh handler perm Inr push have "initialize e w =
            (Inl (Rejected AddNotificationResponseReceivedListener),
             w3\<lparr>calls := calls w3 @ [AddNotificationResponseReceivedListener],
                console := console w3 @
                  [ConsoleError ?msg (Rejected AddNotificationResponseReceivedListener)]\<rparr>)"
          by (simp add: initialize_def io_defs)
        with True handler fresh w2 w3 ls ls3 none only_token len show ?thesis
          by (auto simp add: logs_defs add.assoc)
      next
        case False
        with fresh handler perm Inr push have "initialize e w =
            (Inr (),
             w3\<lparr>calls := calls w3 @ [AddNotificationResponseReceivedListener],
                isInitialized := True,
                console := console w3 @
                  [ConsoleLog ''NotificationService initialized successfully'']\<rparr>)"
          by (simp add: initialize_def io_defs)
        with False handler fresh w2 w3 ls ls3 none only_token len show ?thesis
          by (auto simp add: logs_defs add.assoc)
      qed
    qed
  qed
qed

lemma initialize_again: "isInitialized w \<Longrightarrow> initialize e w = (Inr (), w)"
  by (simp add: initialize_def)

section \<open>The claims\<close>

text \<open>
  Claim C1. An Acknowledge response is handled by \<^verbatim>\<open>handleMedicationTaken\<close>. When the store
  answers and holds the collection \<open>ms\<close>, the collection stored afterwards has the same
  length; every record whose id is the event's \<open>medicationId\<close> has \<open>lastTaken\<close> set to the
  current time and \<open>adherence\<close> set to \<open>min 100 (adherence + 2)\<close>, which is at most 100, all
  its other fields kept; every other record is unchanged. When no stored record has that id
  (or nothing is stored), the stored collection is the same value afterwards, whatever the
  platform rejects.
\<close>

theorem handleMedicationTaken_adherence:
  "(store_reliable e \<longrightarrow> medications w = Some ms \<longrightarrow>
      (\<exists>ms'. medications (snd (handleMedicationTaken e mid t w)) = Some ms' \<and>
         length ms' = length ms \<and>
         (\<forall>i<length ms.
            if id_med (ms ! i) = mid
            then ms' ! i = (ms ! i)\<lparr>lastTaken := Some (now e),
                   adherence := min 100 (adherence (ms ! i) + 2)\<rparr> \<and>
                 adherence (ms' ! i) \<le> 100
            else ms' ! i = ms ! i))) \<and>
   ((\<forall>ms. medications w = Some ms \<longrightarrow> mid \<notin> id_med ` set ms) \<longrightarrow>
      medications (snd (handleMedicationTaken e mid t w)) = medications w)"
proof (intro conjI impI)
  assume "store_reliable e" and "medications w = Some ms"
  then have "medications (snd (handleMedicationTaken e mid t w)) =
      Some (map (mark_taken e mid) ms)"
    by (rule handleMedicationTaken_store)
  then show "\<exists>ms'. medications (snd (handleMedicationTaken e mid t w)) = Some ms' \<and>
         length ms' = length ms \<and>
         (\<forall>i<length ms.
            if id_med (ms ! i) = mid
            then ms' ! i = (ms ! i)\<lparr>lastTaken := Some (now e),
                   adherence := min 100 (adherence (ms ! i) + 2)\<rparr> \<and>
                 adherence (ms' ! i) \<le> 100
            else ms' ! i = ms ! i)"
    by (simp add: mark_taken_def)
next
  assume unknown: "\<forall>ms. medications w = Some ms \<longrightarrow> mid \<notin> id_med ` set ms"
  show "medications (snd (handleMedicationTaken e mid t w)) = medications w"
  proof (cases "medications w")
    case None
    then show ?thesis
      by (simp add: handleMedicationTaken_def getItem_medications_def io_defs)
  next
    case (Some ms)
    with unknown have "map (mark_taken e mid) ms = ms"
      by (intro map_idI) (auto simp add: mark_taken_def)
    with Some show ?thesis
      by (simp add: handleMedicationTaken_def getItem_medications_def setItem_medications_def
          showLocalNotification_def scheduleNotificationAsync_def io_defs Let_def)
  qed
qed

theorem handleMedicationTaken_adherence_witness:
  "store_reliable env0 \<and> medications world_meds = Some [aspirin, ibuprofen] \<and>
   adherence aspirin = 99 \<and>
   (\<exists>ms'. medications (snd (handleMedicationTaken env0 ''m1'' ''09:00'' world_meds)) = Some ms' \<and>
      length ms' = 2 \<and> adherence (ms' ! 0) = 100 \<and> lastTaken (ms' ! 0) = Some (now env0) \<and>
      ms' ! 1 = ibuprofen) \<and>
   medications (snd (handleMedicationTaken env0 ''m9'' ''09:00'' world_meds)) =
     medications world_meds"
proof -
  let ?ms = "[aspirin, ibuprofen]"
  have stored: "medications world_meds = Some ?ms"
    by (simp add: world_meds_def)
  have ids: "id_med aspirin = ''m1''" "id_med ibuprofen = ''m2''" "adherence aspirin = 99"
    by (simp_all add: aspirin_def ibuprofen_def)
  note known = handleMedicationTaken_adherence
    [where e = env0 and w = world_meds and ms = ?ms and mid = "''m1''" and t = "''09:00''"]
  note unknown = handleMedicationTaken_adherence
    [where e = env0 and w = world_meds and ms = ?ms and mid = "''m9''" and t = "''09:00''"]
  from known env0_reliable(1) stored
  obtain ms' where ms': "medications (snd (handleMedicationTaken env0 ''m1'' ''09:00'' world_meds)) = Some ms'"
    and len: "length ms' = length ?ms"
    and each: "\<And>i. i < length ?ms \<Longrightarrow>
          if id_med (?ms ! i) = ''m1''
            then ms' ! i = (?ms ! i)\<lparr>lastTaken := Some (now env0),
                   adherence := min 100 (adherence (?ms ! i) + 2)\<rparr> \<and>
                 adherence (ms' ! i) \<le> 100
            else ms' ! i = ?ms ! i"
    by blast
  from each [of 0] have first: "adherence (ms' ! 0) = 100 \<and> lastTaken (ms' ! 0) = Some (now env0)"
    by (simp add: ids)
  from each [of 1] have second: "ms' ! 1 = ibuprofen"
    by (simp add: ids)
  from unknown have "medications (snd (handleMedicationTaken env0 ''m9'' ''09:00'' world_meds)) =
     medications world_meds"
    by (simp add: stored ids)
  with ms' len first second stored env0_reliable(1) ids(3) show ?thesis
    by simp
qed

text \<open>
  Claim C2. For an enabled reminder whose time is \<open>h:m\<close> written \<^verbatim>\<open>HH:MM\<close> with \<open>h \<le> 23\<close> and
  \<open>m \<le> 59\<close>, and whose days are \<open>k\<close> distinct indices from 0 to 6, on a scheduler that
  rejects no scheduling call, \<^verbatim>\<open>scheduleReminder\<close> issues exactly \<open>k\<close> scheduling calls, one
  per day in order, each with a weekly trigger of hour \<open>h\<close>, minute \<open>m\<close>, \<open>repeats\<close> true and
  weekday \<open>if d = 0 then 1 else d + 1\<close>. That weekday equals \<open>d + 1\<close> and lies between 1 and
  7, and the \<open>k\<close> weekdays are pairwise distinct.
\<close>

theorem scheduleReminder_weekly_triggers:
  assumes "enabled r" and "scheduledTime r = hhmm h m" and "h \<le> 23" and "m \<le> 59"
    and "distinct (days r)" and "set (days r) \<subseteq> {0..6}" and "scheduler_reliable e"
  shows "map trigger (scheduled (issued w (snd (scheduleReminder e r w)))) =
      map (\<lambda>d. WeeklyTrigger (if d = 0 then 1 else d + 1) (Some (Num h)) (Some (Num m)) True)
        (days r) \<and>
    length (scheduled (issued w (snd (scheduleReminder e r w)))) = length (days r) \<and>
    (\<forall>d \<in> set (days r). (if d = 0 then 1 else d + 1) = d + 1 \<and>
       (if d = 0 then 1 else d + 1) \<in> {1..7}) \<and>
    distinct (map (\<lambda>d. if d = 0 then 1 else d + 1) (days r))"
  using assms(1)
proof (cases rule: scheduleReminder_cases [where e = e and w = w])
  case (rejected k err)
  from assms(7) have "rejected e (length (calls (after_cancel e r w)))
      (map (weekly_call r) (take k (days r))) = []"
    by (rule rejected_reliable) (rule weekly_is_schedule)
  with rejected(3) show ?thesis by simp
next
  case (saved ids)
  from assms(3,4) have parts: "map js_Number (split_colon (scheduledTime r)) = [Num h, Num m]"
    unfolding assms(2) by (intro parse_hhmm) simp_all
  from saved(2) have "scheduled (issued w (snd (scheduleReminder e r w))) =
      map (reminder_request r (Some (Num h)) (Some (Num m))) (days r)"
    by (simp add: issued_def saveReminder_effect Let_def scheduled_append
        scheduled_cancel_calls scheduled_weekly parts first_of_def second_of_def)
  moreover have "(\<lambda>d::int. if d = 0 then 1 else d + 1) = (\<lambda>d. d + 1)"
    by auto
  moreover from assms(5) have "distinct (map (\<lambda>d. d + 1) (days r))"
    by (simp add: distinct_map inj_on_def)
  ultimately show ?thesis
    using assms(6) by (auto simp add: reminder_request_def weekday_of_def)
qed

theorem scheduleReminder_weekly_triggers_witness:
  "enabled rem_weekdays \<and> scheduledTime rem_weekdays = hhmm 9 0 \<and>
   (9::nat) \<le> 23 \<and> (0::nat) \<le> 59 \<and>
   distinct (days rem_weekdays) \<and> set (days rem_weekdays) \<subseteq> {0..6} \<and>
   scheduler_reliable env0 \<and>
   map trigger (scheduled (issued world0 (snd (scheduleReminder env0 rem_weekdays world0)))) =
     [WeeklyTrigger 2 (Some (Num 9)) (Some (Num 0)) True,
      WeeklyTrigger 4 (Some (Num 9)) (Some (Num 0)) True,
      WeeklyTrigger 6 (Some (Num 9)) (Some (Num 0)) True]"
  using scheduleReminder_weekly_triggers
      [where r = rem_weekdays and h = 9 and m = 0 and e = env0 and w = world0] env0_reliable
  by (simp add: rem_weekdays_def hhmm_9_0)

text \<open>
  Claim C3 says that \<^verbatim>\<open>scheduleReminder\<close> returns \<^verbatim>\<open>null\<close> for an enabled reminder with no
  days. On that path the code returns \<^verbatim>\<open>notificationIds[0]\<close> of an empty array, which is
  \<^verbatim>\<open>undefined\<close> and not \<^verbatim>\<open>null\<close>, the value its declared type and its two other exits
  promise. The rest holds: no scheduling call is issued, whatever the platform rejects, and
  the only call to the registrar is the cancellation of the handle the reminder carries, if
  it carries one.
\<close>

theorem scheduleReminder_empty_days_undefined:
  assumes "enabled r" and "days r = []"
  shows "fst (scheduleReminder e r w) = Inr Undefined \<and>
    fst (scheduleReminder e r w) \<noteq> Inr Null \<and>
    filter is_schedule (issued w (snd (scheduleReminder e r w))) = [] \<and>
    filter is_registrar (issued w (snd (scheduleReminder e r w))) =
      (case notificationId r of
         None \<Rightarrow> []
       | Some h \<Rightarrow> if h = [] then [] else [CancelScheduledNotificationAsync h])"
  using assms
  by (simp add: scheduleReminder_def cancel_step saveReminder_effect Let_def first_of_def
      handle_of_def issued_def io_defs cancel_calls_def is_registrar_def split: option.split)

theorem scheduleReminder_empty_days_undefined_witness:
  "enabled rem_stale \<and> days rem_stale = [] \<and>
   fst (scheduleReminder env0 rem_stale world0) = Inr Undefined \<and>
   fst (scheduleReminder env0 rem_stale world0) \<noteq> Inr Null \<and>
   filter is_schedule (issued world0 (snd (scheduleReminder env0 rem_stale world0))) = [] \<and>
   filter is_registrar (issued world0 (snd (scheduleReminder env0 rem_stale world0))) =
     [CancelScheduledNotificationAsync ''old-handle'']"
  using scheduleReminder_empty_days_undefined [where r = rem_stale and e = env0 and w = world0]
  by (simp add: rem_stale_def rem_rescheduled_def rem_weekdays_def)

text \<open>
  Claim C4 says that deleting an id that is not stored performs no persistence write. It does
  perform one: with one reminder stored and the unknown id \<^verbatim>\<open>r9\<close>, \<^verbatim>\<open>deleteReminder\<close> writes
  the collection back.
\<close>

theorem deleteReminder_unknown_id_writes:
  "''r9'' \<notin> id_rem ` set (stored_reminders world_rems) \<and>
   filter is_write (issued world_rems (snd (deleteReminder env0 ''r9'' world_rems))) =
     [SetItemReminders [rem_rescheduled]]"
  by (simp add: deleteReminder_effect Let_def issued_def world_rems_def world0_def env0_def
      stored_reminders_def rem_rescheduled_def rem_weekdays_def)

text \<open>
  Claim C4, amended. When the store answers and the first stored reminder with the given id
  holds a handle \<open>h\<close> (a non-empty string), \<^verbatim>\<open>deleteReminder\<close> issues exactly one call to the
  registrar, the cancellation of \<open>h\<close>, and stores the collection without the entries of that
  id. When no stored reminder has the id, it issues no call to the registrar and exactly one
  persistence write, whatever the platform rejects; when the store answers, that write is
  the stored collection itself, which is read back unchanged.
\<close>

theorem deleteReminder_cancels_and_removes:
  "(store_reliable e \<longrightarrow> medication_reminders w = Some rs \<longrightarrow>
      find (\<lambda>r. id_rem r = rid) rs = Some r \<longrightarrow> notificationId r = Some h \<longrightarrow> h \<noteq> [] \<longrightarrow>
        filter is_registrar (issued w (snd (deleteReminder e rid w))) =
          [CancelScheduledNotificationAsync h] \<and>
        medication_reminders (snd (deleteReminder e rid w)) =
          Some (filter (\<lambda>r. id_rem r \<noteq> rid) rs) \<and>
        rid \<notin> id_rem ` set (stored_reminders (snd (deleteReminder e rid w)))) \<and>
   (rid \<notin> id_rem ` set (stored_reminders w) \<longrightarrow>
      filter is_registrar (issued w (snd (deleteReminder e rid w))) = [] \<and>
      length (filter is_write (issued w (snd (deleteReminder e rid w)))) = 1 \<and>
      (store_reliable e \<longrightarrow>
         filter is_write (issued w (snd (deleteReminder e rid w))) =
           [SetItemReminders (stored_reminders w)] \<and>
         stored_reminders (snd (deleteReminder e rid w)) = stored_reminders w))"
proof (intro conjI impI)
  assume rel: "store_reliable e" and stored: "medication_reminders w = Some rs"
    and found: "find (\<lambda>r. id_rem r = rid) rs = Some r"
    and handle: "notificationId r = Some h" "h \<noteq> []"
  from handle have cc: "cancel_calls r = [CancelScheduledNotificationAsync h]"
    by (simp add: cancel_calls_def)
  from stored have rs: "stored_reminders w = rs"
    by (simp add: stored_reminders_def)
  from rel found show "filter is_registrar (issued w (snd (deleteReminder e rid w))) =
      [CancelScheduledNotificationAsync h]"
    by (simp add: deleteReminder_effect Let_def issued_def store_reliableD rs cc
        is_registrar_def)
  from rel found show removed: "medication_reminders (snd (deleteReminder e rid w)) =
      Some (filter (\<lambda>r. id_rem r \<noteq> rid) rs)"
    by (simp add: deleteReminder_effect Let_def store_reliableD rs cc)
  then show "rid \<notin> id_rem ` set (stored_reminders (snd (deleteReminder e rid w)))"
    by (auto simp add: stored_reminders_def)
next
  assume absent: "rid \<notin> id_rem ` set (stored_reminders w)"
  have none: "find (\<lambda>r. id_rem r = rid) (stored_reminders w) = None"
    using absent by (rule find_absent)
  show "filter is_registrar (issued w (snd (deleteReminder e rid w))) = []"
    by (simp add: deleteReminder_effect Let_def issued_def none is_registrar_def)
  show "length (filter is_write (issued w (snd (deleteReminder e rid w)))) = 1"
    by (simp add: deleteReminder_effect Let_def issued_def none)
  assume rel: "store_reliable e"
  from absent have same: "filter (\<lambda>r. id_rem r \<noteq> rid) (stored_reminders w) = stored_reminders w"
    by (rule filter_absent)
  from rel show "filter is_write (issued w (snd (deleteReminder e rid w))) =
      [SetItemReminders (stored_reminders w)]"
    by (simp add: deleteReminder_effect Let_def issued_def none same store_reliableD)
  from rel show "stored_reminders (snd (deleteReminder e rid w)) = stored_reminders w"
    by (simp add: deleteReminder_effect Let_def none same store_reliableD)
      (simp add: stored_reminders_def)
qed

theorem deleteReminder_cancels_and_removes_witness:
  "store_reliable env0 \<and> medication_reminders world_rems = Some [rem_rescheduled] \<and>
   find (\<lambda>r. id_rem r = ''r1'') [rem_rescheduled] = Some rem_rescheduled \<and>
   notificationId rem_rescheduled = Some ''old-handle'' \<and>
   filter is_registrar (issued world_rems (snd (deleteReminder env0 ''r1'' world_rems))) =
     [CancelScheduledNotificationAsync ''old-handle''] \<and>
   medication_reminders (snd (deleteReminder env0 ''r1'' world_rems)) = Some [] \<and>
   ''r9'' \<notin> id_rem ` set (stored_reminders world_rems) \<and>
   filter is_registrar (issued world_rems (snd (deleteReminder env0 ''r9'' world_rems))) = [] \<and>
   length (filter is_write (issued world_rems (snd (deleteReminder env0 ''r9'' world_rems)))) = 1 \<and>
   stored_reminders (snd (deleteReminder env0 ''r9'' world_rems)) = stored_reminders world_rems"
proof -
  have facts: "medication_reminders world_rems = Some [rem_rescheduled]"
    "stored_reminders world_rems = [rem_rescheduled]"
    "id_rem rem_rescheduled = ''r1''" "notificationId rem_rescheduled = Some ''old-handle''"
    by (simp_all add: world_rems_def stored_reminders_def rem_rescheduled_def rem_weekdays_def)
  note known = deleteReminder_cancels_and_removes
    [where e = env0 and w = world_rems and rs = "[rem_rescheduled]" and rid = "''r1''"
       and r = rem_rescheduled and h = "''old-handle''"]
  note unknown = deleteReminder_cancels_and_removes
    [where e = env0 and w = world_rems and rid = "''r9''"]
  from known unknown env0_reliable(1) show ?thesis
    by (simp add: facts)
qed

text \<open>
  Claim C5 concludes that re-scheduling never leaves a duplicate live trigger under the old
  handle. It does when the registrar rejects the cancellation: \<^verbatim>\<open>cancelReminder\<close> logs the
  error and swallows it, registration goes on, and the trigger under the old handle stays
  live beside the new one for the same day and time.
\<close>

theorem scheduleReminder_rejected_cancel_duplicates:
  "enabled rem_monday \<and> notificationId rem_monday = Some ''old-handle'' \<and>
   live world_live = [(''old-handle'', monday_request)] \<and>
   live (snd (scheduleReminder env_cancel_rejected rem_monday world_live)) =
     [(''old-handle'', monday_request), (''nn'', monday_request)]"
  by (simp add: scheduleReminder_def cancelReminder_def cancelScheduledNotificationAsync_def
      scheduleNotificationAsync_def saveReminder_def getReminders_def getItem_reminders_def
      setItem_reminders_def io_defs Let_def truthy_def first_of_def second_of_def
      js_Number_def digit_def reminder_request_def monday_request_def rem_monday_def
      rem_rescheduled_def rem_weekdays_def world_live_def world0_def env_cancel_rejected_def
      env0_def)

text \<open>
  Claim C5, amended. For an enabled reminder whose \<open>notificationId\<close> holds a handle \<open>h\<close> (a
  non-empty string), the first call that \<^verbatim>\<open>scheduleReminder\<close> issues is the cancellation of
  \<open>h\<close>, and no later call of the invocation is a cancellation: exactly one cancel call, for
  that handle, ahead of every scheduling call, whatever the platform rejects. When the
  registrar accepts that cancellation, no trigger that was live under \<open>h\<close> remains: the live
  triggers afterwards are the earlier ones under other handles, followed by those this
  invocation registered. When it rejects the cancellation, the earlier triggers all stay
  live, followed by those this invocation registered.
\<close>

theorem scheduleReminder_cancels_first:
  assumes "enabled r" and "notificationId r = Some h" and "h \<noteq> []"
  shows "\<exists>rest. issued w (snd (scheduleReminder e r w)) =
      CancelScheduledNotificationAsync h # rest \<and> (\<forall>c \<in> set rest. \<not> is_cancel c) \<and>
      live (snd (scheduleReminder e r w)) =
        (if fails e (CancelScheduledNotificationAsync h) (length (calls w)) then live w
         else filter (\<lambda>x. fst x \<noteq> h) (live w)) @
        registrations e (Suc (length (calls w))) rest"
  using assms(1)
proof (cases rule: scheduleReminder_cases [where e = e and w = w])
  case (rejected k err)
  from assms(2,3) have cc: "cancel_calls r = [CancelScheduledNotificationAsync h]"
    by (simp add: cancel_calls_def)
  have weekly: "\<forall>c \<in> set (map (weekly_call r) (take k (days r))). \<not> is_cancel c"
    by (simp add: weekly_call_def)
  from rejected(2) assms(2,3) weekly show ?thesis
    by (intro exI [of _ "map (weekly_call r) (take k (days r))"])
      (simp add: issued_def cc live_after_cancel_def)
next
  case (saved ids)
  from assms(2,3) have cc: "cancel_calls r = [CancelScheduledNotificationAsync h]"
    by (simp add: cancel_calls_def)
  let ?n = "length (calls w)"
  let ?rs = "if fails e (GetItem ''medication_reminders'') (Suc (?n + length (days r)))
    then [] else stored_reminders w"
  let ?xs = "filter (\<lambda>x. id_rem x \<noteq> id_rem r) ?rs @ [r\<lparr>notificationId := first_of ids\<rparr>]"
  let ?rest = "map (weekly_call r) (days r) @
    [GetItem ''medication_reminders'', SetItemReminders ?xs]"
  have weekly: "\<forall>c \<in> set ?rest. \<not> is_cancel c"
    by (simp add: weekly_call_def)
  from saved(2) assms(2,3) weekly show ?thesis
    by (intro exI [of _ ?rest])
      (simp add: issued_def cc live_after_cancel_def saveReminder_effect Let_def
        registrations_append stored_reminders_frame)
qed

theorem scheduleReminder_cancels_first_witness:
  "enabled rem_monday \<and> notificationId rem_monday = Some ''old-handle'' \<and>
   \<not> fails env0 (CancelScheduledNotificationAsync ''old-handle'') (length (calls world_live)) \<and>
   (\<exists>rest. issued world_live (snd (scheduleReminder env0 rem_monday world_live)) =
      CancelScheduledNotificationAsync ''old-handle'' # rest \<and>
      (\<forall>c \<in> set rest. \<not> is_cancel c) \<and>
      live (snd (scheduleReminder env0 rem_monday world_live)) =
        filter (\<lambda>x. fst x \<noteq> ''old-handle'') (live world_live) @
        registrations env0 (Suc (length (calls world_live))) rest) \<and>
   filter (\<lambda>x. fst x \<noteq> ''old-handle'') (live world_live) = []"
  using scheduleReminder_cancels_first
      [where r = rem_monday and h = "''old-handle''" and e = env0 and w = world_live]
  by (simp add: rem_monday_def rem_rescheduled_def rem_weekdays_def env0_def world_live_def)

text \<open>
  Claim C6. \<^verbatim>\<open>handleSnoozeReminder\<close> never changes the stored medications (so neither
  \<open>adherence\<close> nor \<open>lastTaken\<close> of any of them). When the store and the scheduler reject
  nothing, it registers exactly one trigger: a time interval of 900 seconds that does not
  repeat, on a request whose data carry the event's \<open>medicationId\<close> and \<open>reminderTime\<close>.
  (The confirmation it also sends has trigger \<^verbatim>\<open>null\<close> and registers nothing.)
\<close>

theorem handleSnoozeReminder_one_shot:
  "medications (snd (handleSnoozeReminder e mid t w)) = medications w \<and>
   (store_reliable e \<longrightarrow> scheduler_reliable e \<longrightarrow>
      (\<exists>q. registered (issued w (snd (handleSnoozeReminder e mid t w))) = [q] \<and>
         trigger q = TimeIntervalTrigger 900 False \<and>
         map_of (data (content q)) ''medicationId'' = Some mid \<and>
         map_of (data (content q)) ''reminderTime'' = Some t))"
  by (simp add: handleSnoozeReminder_def getItem_medications_def showLocalNotification_def
      scheduleNotificationAsync_def io_defs store_reliableD scheduler_reliableD issued_def
      registered_def Let_def)

theorem handleSnoozeReminder_one_shot_witness:
  "store_reliable env0 \<and> scheduler_reliable env0 \<and>
   medications (snd (handleSnoozeReminder env0 ''m1'' ''09:00'' world_meds)) =
     medications world_meds \<and>
   (\<exists>q. registered (issued world_meds (snd (handleSnoozeReminder env0 ''m1'' ''09:00'' world_meds))) = [q] \<and>
      trigger q = TimeIntervalTrigger 900 False \<and>
      map_of (data (content q)) ''medicationId'' = Some ''m1'' \<and>
      map_of (data (content q)) ''reminderTime'' = Some ''09:00'')"
  using handleSnoozeReminder_one_shot
      [where e = env0 and mid = "''m1''" and t = "''09:00''" and w = world_meds] env0_reliable
  by simp

text \<open>
  Claim C7. If the stored reminders have pairwise different ids, then after \<^verbatim>\<open>saveReminder\<close>,
  after \<^verbatim>\<open>scheduleReminder\<close> (which saves) and after \<^verbatim>\<open>deleteReminder\<close> they still have, and
  every collection these operations write to the store has pairwise different ids,
  whatever the platform rejects.
\<close>

theorem reminder_ids_stay_distinct:
  assumes "ids_distinct (medication_reminders w)"
  shows "(ids_distinct (medication_reminders (snd (saveReminder e r w))) \<and>
      list_all duplicate_free (written (issued w (snd (saveReminder e r w))))) \<and>
    (ids_distinct (medication_reminders (snd (scheduleReminder e r w))) \<and>
      list_all duplicate_free (written (issued w (snd (scheduleReminder e r w))))) \<and>
    (ids_distinct (medication_reminders (snd (deleteReminder e rid w))) \<and>
      list_all duplicate_free (written (issued w (snd (deleteReminder e rid w)))))"
proof (intro conjI)
  show "ids_distinct (medication_reminders (snd (saveReminder e r w)))"
    using assms by (rule saveReminder_distinct)
  show "list_all duplicate_free (written (issued w (snd (saveReminder e r w))))"
    using assms by (rule saveReminder_written)
  have "ids_distinct (medication_reminders (snd (scheduleReminder e r w))) \<and>
      list_all duplicate_free (written (issued w (snd (scheduleReminder e r w))))"
  proof (cases "enabled r")
    case False
    with assms show ?thesis
      by (simp add: scheduleReminder_def io_defs issued_def)
  next
    case True
    then show ?thesis
    proof (cases rule: scheduleReminder_cases [where e = e and w = w])
      case (rejected k err)
      with assms show ?thesis
        by (simp add: issued_def written_append written_cancel_calls written_weekly)
    next
      case (saved ids)
      let ?w2 = "(after_cancel e r w)
        \<lparr>calls := calls (after_cancel e r w) @ map (weekly_call r) (days r),
         live := live (after_cancel e r w) @
           registrations e (length (calls (after_cancel e r w)))
             (map (weekly_call r) (days r))\<rparr>"
      let ?r' = "r\<lparr>notificationId := first_of ids\<rparr>"
      from assms have start: "ids_distinct (medication_reminders ?w2)" by simp
      then have "ids_distinct (medication_reminders (snd (saveReminder e ?r' ?w2)))"
        by (rule saveReminder_distinct)
      moreover from start
      have "list_all duplicate_free (written (issued ?w2 (snd (saveReminder e ?r' ?w2))))"
        by (rule saveReminder_written)
      then have "list_all duplicate_free (written (issued w (snd (saveReminder e ?r' ?w2))))"
        by (simp add: saveReminder_effect Let_def issued_def written_append
            written_cancel_calls written_weekly)
      ultimately show ?thesis
        unfolding saved(2) by simp
    qed
  qed
  then show "ids_distinct (medication_reminders (snd (scheduleReminder e r w)))"
    and "list_all duplicate_free (written (issued w (snd (scheduleReminder e r w))))"
    by simp_all
  from assms have "distinct (map id_rem (stored_reminders w))"
    by (simp add: ids_distinct_stored)
  then have kept: "distinct (map id_rem (filter (\<lambda>r. id_rem r \<noteq> rid) (stored_reminders w)))"
    by (rule distinct_map_filter)
  with assms show "ids_distinct (medication_reminders (snd (deleteReminder e rid w)))"
    by (simp add: deleteReminder_effect Let_def) (simp add: ids_distinct_def)
  from kept show "list_all duplicate_free (written (issued w (snd (deleteReminder e rid w))))"
    by (simp add: deleteReminder_effect Let_def issued_def written_append duplicate_free_def
        written_cancel_calls split: option.split)
qed

theorem reminder_ids_stay_distinct_witness:
  "ids_distinct (medication_reminders world_rems) \<and>
   ids_distinct (medication_reminders (snd (saveReminder env0 rem_weekdays world_rems))) \<and>
   ids_distinct (medication_reminders (snd (scheduleReminder env0 rem_weekdays world_rems))) \<and>
   ids_distinct (medication_reminders (snd (deleteReminder env0 ''r1'' world_rems))) \<and>
   list_all duplicate_free
     (written (issued world_rems (snd (scheduleReminder env0 rem_weekdays world_rems))))"
proof -
  have "ids_distinct (medication_reminders world_rems)"
    by (simp add: world_rems_def ids_distinct_def)
  with reminder_ids_stay_distinct
    [where w = world_rems and e = env0 and r = rem_weekdays and rid = "''r1''"]
  show ?thesis by simp
qed

text \<open>
  Claim C8 says that no operation propagates an exception. \<^verbatim>\<open>testNotification\<close> does: on a
  platform that rejects the scheduling call, it ends with the rejection thrown to its caller.
\<close>

theorem testNotification_throws:
  "fst (testNotification env_rejecting world0) =
     Inl (Rejected (ScheduleNotificationAsync
       \<lparr>content = \<lparr>title = symbol_test @ '' Test Notification'',
          body = ''This is a test notification to verify the service is working correctly.'',
          data = [(''type'', ''test'')], sound = True, priority = None,
          categoryIdentifier = None\<rparr>,
        trigger = NullTrigger\<rparr>))"
  by (simp add: testNotification_def showLocalNotification_def scheduleNotificationAsync_def
      io_defs env_rejecting_def env0_def)

text \<open>
  Claim C8, amended. Whatever the platform rejects, \<^verbatim>\<open>scheduleReminder\<close>, \<^verbatim>\<open>cancelReminder\<close>,
  \<^verbatim>\<open>cancelAllReminders\<close>, \<^verbatim>\<open>deleteReminder\<close>, \<^verbatim>\<open>getReminders\<close> and the response listener
  complete with a value and never throw, and every call rejected on the way is reported
  with \<^verbatim>\<open>console.error\<close>; \<^verbatim>\<open>scheduleReminder\<close> returns \<^verbatim>\<open>null\<close> when a scheduling call was
  rejected, and \<^verbatim>\<open>getReminders\<close> the empty list when its read was. \<^verbatim>\<open>showLocalNotification\<close>
  and \<^verbatim>\<open>testNotification\<close> throw exactly when their scheduling call is rejected, and throw
  that rejection after reporting it. \<^verbatim>\<open>initialize\<close> does nothing when the service is
  initialised already; otherwise it reports every rejected call and throws exactly when a
  call it issued other than \<^verbatim>\<open>getExpoPushTokenAsync\<close> is rejected, throwing that rejection
  after reporting it and leaving the service uninitialised. A rejected
  \<^verbatim>\<open>getExpoPushTokenAsync\<close> is reported and swallowed, and when \<^verbatim>\<open>initialize\<close> completes the
  service is initialised.
\<close>

theorem service_exception_policy:
  "((\<exists>v. fst (scheduleReminder e r w) = Inr v) \<and>
     logs_rejections e w (snd (scheduleReminder e r w)) \<and>
     ((\<exists>c \<in> set (rejected e (length (calls w)) (issued w (snd (scheduleReminder e r w)))).
         is_schedule c) \<longrightarrow> fst (scheduleReminder e r w) = Inr Null)) \<and>
   (fst (cancelReminder e h w) = Inr () \<and> logs_rejections e w (snd (cancelReminder e h w))) \<and>
   (fst (cancelAllReminders e w) = Inr () \<and>
     logs_rejections e w (snd (cancelAllReminders e w))) \<and>
   (fst (deleteReminder e rid w) = Inr () \<and>
     logs_rejections e w (snd (deleteReminder e rid w))) \<and>
   ((\<exists>rs. fst (getReminders e w) = Inr rs) \<and> logs_rejections e w (snd (getReminders e w)) \<and>
     (fails e (GetItem ''medication_reminders'') (length (calls w)) \<longrightarrow>
        fst (getReminders e w) = Inr [])) \<and>
   (fst (responseListener e resp w) = Inr () \<and>
     logs_rejections e w (snd (responseListener e resp w))) \<and>
   ((\<forall>err. fst (showLocalNotification e t b d w) = Inl err \<longleftrightarrow>
       (\<exists>c \<in> set (rejected e (length (calls w))
                  (issued w (snd (showLocalNotification e t b d w)))). err = Rejected c)) \<and>
     (\<forall>err. fst (showLocalNotification e t b d w) = Inl err \<longrightarrow>
       ConsoleError ''Failed to show local notification:'' err
         \<in> set (printed w (snd (showLocalNotification e t b d w))))) \<and>
   ((\<forall>err. fst (testNotification e w) = Inl err \<longleftrightarrow>
       (\<exists>c \<in> set (rejected e (length (calls w)) (issued w (snd (testNotification e w)))).
          err = Rejected c)) \<and>
     (\<forall>err. fst (testNotification e w) = Inl err \<longrightarrow>
       ConsoleError ''Failed to send test notification:'' err
         \<in> set (printed w (snd (testNotification e w))))) \<and>
   (isInitialized w \<longrightarrow> initialize e w = (Inr (), w)) \<and>
   (\<not> isInitialized w \<longrightarrow>
     logs_rejections e w (snd (initialize e w)) \<and>
     (\<forall>err. fst (initialize e w) = Inl err \<longleftrightarrow>
        (\<exists>c \<in> set (rejected e (length (calls w)) (issued w (snd (initialize e w)))).
           c \<noteq> GetExpoPushTokenAsync \<and> err = Rejected c)) \<and>
     (\<forall>err. fst (initialize e w) = Inl err \<longrightarrow>
        ConsoleError ''Failed to initialize NotificationService:'' err
          \<in> set (printed w (snd (initialize e w))) \<and>
        \<not> isInitialized (snd (initialize e w))) \<and>
     (fst (initialize e w) = Inr () \<longrightarrow> isInitialized (snd (initialize e w))))"
  using initialize_fresh [of w e] initialize_again [of w e]
  by (intro conjI impI scheduleReminder_safe cancelReminder_safe cancelAllReminders_safe
      deleteReminder_safe getReminders_safe responseListener_safe
      showLocalNotification_policy testNotification_policy) blast+

theorem service_exception_policy_witness:
  "(\<exists>c \<in> set (rejected env_rejecting (length (calls world0))
        (issued world0 (snd (scheduleReminder env_rejecting rem_weekdays world0)))).
      is_schedule c) \<and>
   fst (scheduleReminder env_rejecting rem_weekdays world0) = Inr Null \<and>
   fails env_rejecting (GetItem ''medication_reminders'') (length (calls world0)) \<and>
   fst (getReminders env_rejecting world0) = Inr [] \<and>
   \<not> isInitialized world0 \<and>
   fst (initialize env_rejecting world0) = Inl (Rejected SetNotificationHandler) \<and>
   ConsoleError ''Failed to initialize NotificationService:'' (Rejected SetNotificationHandler)
     \<in> set (printed world0 (snd (initialize env_rejecting world0))) \<and>
   fst (initialize env_token_rejected world0) = Inr () \<and>
   isInitialized (snd (initialize env_token_rejected world0)) \<and>
   initialize env_rejecting (snd (initialize env_token_rejected world0)) =
     (Inr (), snd (initialize env_token_rejected world0)) \<and>
   (\<exists>err. fst (showLocalNotification env_rejecting ''title'' ''body'' [] world0) = Inl err \<and>
      ConsoleError ''Failed to show local notification:'' err
        \<in> set (printed world0
             (snd (showLocalNotification env_rejecting ''title'' ''body'' [] world0)))) \<and>
   (\<exists>err. fst (testNotification env_rejecting world0) = Inl err \<and>
      ConsoleError ''Failed to send test notification:'' err
        \<in> set (printed world0 (snd (testNotification env_rejecting world0))))"
proof -
  have all_fail: "\<And>c n. fails env_rejecting c n"
    by (simp add: env_rejecting_def)
  have fresh: "\<not> isInitialized world0" "calls world0 = []"
    by (simp_all add: world0_def)
  have sched: "\<exists>c \<in> set (rejected env_rejecting (length (calls world0))
        (issued world0 (snd (scheduleReminder env_rejecting rem_weekdays world0)))).
      is_schedule c"
    by (simp add: scheduleReminder_def scheduleNotificationAsync_def io_defs Let_def
        rem_weekdays_def all_fail fresh issued_def)
  have handler: "SetNotificationHandler \<in> set (rejected env_rejecting (length (calls world0))
        (issued world0 (snd (initialize env_rejecting world0))))"
    by (simp add: initialize_def io_defs all_fail fresh issued_def)
  have show_call: "\<exists>c. c \<in> set (rejected env_rejecting (length (calls world0))
        (issued world0 (snd (showLocalNotification env_rejecting ''title'' ''body'' [] world0))))"
    by (simp add: showLocalNotification_def scheduleNotificationAsync_def io_defs all_fail
        fresh issued_def)
  have test_call: "\<exists>c. c \<in> set (rejected env_rejecting (length (calls world0))
        (issued world0 (snd (testNotification env_rejecting world0))))"
    by (simp add: testNotification_def showLocalNotification_def scheduleNotificationAsync_def
        io_defs all_fail fresh issued_def)
  have token: "fst (initialize env_token_rejected world0) = Inr ()"
    by (simp add: initialize_def requestPermissions_def registerForPushNotificationsAsync_def
        io_defs env_token_rejected_def env0_def world0_def)
  note policy = service_exception_policy [where e = env_rejecting and w = world0
      and r = rem_weekdays and t = "''title''" and b = "''body''" and d = "[]"
      and h = "''old-handle''" and rid = "''r1''" and resp = resp_no_time]
  note token_policy = service_exception_policy [where e = env_token_rejected and w = world0
      and r = rem_weekdays and t = "''title''" and b = "''body''" and d = "[]"
      and h = "''old-handle''" and rid = "''r1''" and resp = resp_no_time]
  note again_policy = service_exception_policy [where e = env_rejecting
      and w = "snd (initialize env_token_rejected world0)"
      and r = rem_weekdays and t = "''title''" and b = "''body''" and d = "[]"
      and h = "''old-handle''" and rid = "''r1''" and resp = resp_no_time]
  note schedule_part = policy [THEN conjunct1, THEN conjunct2, THEN conjunct2]
  note get_part = policy [THEN conjunct2, THEN conjunct2, THEN conjunct2, THEN conjunct2, THEN conjunct1, THEN conjunct2, THEN conjunct2]
  note show_part = policy [THEN conjunct2, THEN conjunct2, THEN conjunct2, THEN conjunct2, THEN conjunct2, THEN conjunct2, THEN conjunct1]
  note test_part = policy [THEN conjunct2, THEN conjunct2, THEN conjunct2, THEN conjunct2, THEN conjunct2, THEN conjunct2, THEN conjunct2, THEN conjunct1]
  note init_part = policy [THEN conjunct2, THEN conjunct2, THEN conjunct2, THEN conjunct2, THEN conjunct2, THEN conjunct2, THEN conjunct2, THEN conjunct2, THEN conjunct2, THEN mp, OF fresh(1)]
  note token_part = token_policy [THEN conjunct2, THEN conjunct2, THEN conjunct2, THEN conjunct2, THEN conjunct2, THEN conjunct2, THEN conjunct2, THEN conjunct2, THEN conjunct2, THEN mp, OF fresh(1)]
  note again_part = again_policy [THEN conjunct2, THEN conjunct2, THEN conjunct2, THEN conjunct2, THEN conjunct2, THEN conjunct2, THEN conjunct2, THEN conjunct2, THEN conjunct1]
  from schedule_part sched
  have "fst (scheduleReminder env_rejecting rem_weekdays world0) = Inr Null" ..
  moreover from get_part all_fail
  have "fst (getReminders env_rejecting world0) = Inr []" ..
  moreover from init_part handler
  have thrown: "fst (initialize env_rejecting world0) = Inl (Rejected SetNotificationHandler)"
    by blast
  moreover from init_part thrown
  have "ConsoleError ''Failed to initialize NotificationService:''
      (Rejected SetNotificationHandler)
        \<in> set (printed world0 (snd (initialize env_rejecting world0)))"
    by blast
  moreover from token_part token
  have inited: "isInitialized (snd (initialize env_token_rejected world0))"
    by blast
  moreover from again_part inited
  have "initialize env_rejecting (snd (initialize env_token_rejected world0)) =
     (Inr (), snd (initialize env_token_rejected world0))" ..
  moreover from show_part show_call
  have "\<exists>err. fst (showLocalNotification env_rejecting ''title'' ''body'' [] world0) = Inl err \<and>
      ConsoleError ''Failed to show local notification:'' err
        \<in> set (printed world0
             (snd (showLocalNotification env_rejecting ''title'' ''body'' [] world0)))"
    by blast
  moreover from test_part test_call
  have "\<exists>err. fst (testNotification env_rejecting world0) = Inl err \<and>
      ConsoleError ''Failed to send test notification:'' err
        \<in> set (printed world0 (snd (testNotification env_rejecting world0)))"
    by blast
  ultimately show ?thesis
    using sched all_fail fresh(1) token by (intro conjI)
qed

text \<open>
  Claim C9. When the stored collection is present and none of its records has the event's
  \<open>medicationId\<close>, and the store answers, \<^verbatim>\<open>handleMedicationTaken\<close> still reads the
  collection, writes the same collection back, and sends the \<^verbatim>\<open>Dose Recorded\<close> confirmation
  with the fallback name \<^verbatim>\<open>Medication\<close>.
\<close>

theorem handleMedicationTaken_unknown_id:
  assumes "store_reliable e" and "medications w = Some ms" and "mid \<notin> id_med ` set ms"
  shows "issued w (snd (handleMedicationTaken e mid t w)) =
      [GetItem ''medications'', SetItemMedications ms,
       ScheduleNotificationAsync
         \<lparr>content = \<lparr>title = symbol_recorded @ '' Dose Recorded'',
                      body = ''Medication marked as taken'',
                      data = [(''type'', ''confirmation'')], sound = True, priority = None,
                      categoryIdentifier = None\<rparr>,
          trigger = NullTrigger\<rparr>] \<and>
    medications (snd (handleMedicationTaken e mid t w)) = Some ms"
proof -
  from assms(3) have same: "map (mark_taken e mid) ms = ms"
    by (intro map_idI) (auto simp add: mark_taken_def)
  from assms(3) have "find (\<lambda>m. id_med m = mid) ms = None"
    by (auto simp add: find_None_iff)
  then have name: "display_name ms mid = ''Medication''"
    by (simp add: display_name_def)
  from assms(1,2) show ?thesis
    by (simp add: handleMedicationTaken_def getItem_medications_def setItem_medications_def
        showLocalNotification_def scheduleNotificationAsync_def io_defs store_reliableD
        same name issued_def Let_def)
qed

theorem handleMedicationTaken_unknown_id_witness:
  "store_reliable env0 \<and> medications world_meds = Some [aspirin, ibuprofen] \<and>
   ''m9'' \<notin> id_med ` set [aspirin, ibuprofen] \<and>
   issued world_meds (snd (handleMedicationTaken env0 ''m9'' ''09:00'' world_meds)) =
      [GetItem ''medications'', SetItemMedications [aspirin, ibuprofen],
       ScheduleNotificationAsync
         \<lparr>content = \<lparr>title = symbol_recorded @ '' Dose Recorded'',
                      body = ''Medication marked as taken'',
                      data = [(''type'', ''confirmation'')], sound = True, priority = None,
                      categoryIdentifier = None\<rparr>,
          trigger = NullTrigger\<rparr>]"
  using handleMedicationTaken_unknown_id [where e = env0 and w = world_meds
      and ms = "[aspirin, ibuprofen]" and mid = "''m9''" and t = "''09:00''"]
    env0_reliable(1)
  by (simp add: world_meds_def aspirin_def ibuprofen_def)

text \<open>
  Claim C10. A response whose data lack \<open>reminderTime\<close> or lack \<open>medicationId\<close> (a missing
  field is not truthy, and neither is an empty one) makes the listener return at once: the
  world is unchanged, so no handler ran, no call was issued and nothing was stored or
  printed.
\<close>

theorem listener_requires_both_fields:
  assumes "\<not> truthy (map_of (payload_of resp) ''medicationId'') \<or>
     \<not> truthy (map_of (payload_of resp) ''reminderTime'')"
  shows "responseListener e resp w = (Inr (), w)"
  using assms by (auto simp add: responseListener_def Let_def return_def)

theorem listener_requires_both_fields_witness:
  "\<not> truthy (map_of (payload_of resp_no_time) ''reminderTime'') \<and>
   truthy (map_of (payload_of resp_no_time) ''medicationId'') \<and>
   responseListener env0 resp_no_time world_meds = (Inr (), world_meds)"
  using listener_requires_both_fields [where resp = resp_no_time and e = env0 and w = world_meds]
  by (simp add: resp_no_time_def payload_of_def truthy_def)

end
